theory Spec2Isabelle
  imports Main "HOL-Library.Word" "HOL-Library.Signed_Division" "HOL-Library.AList"
    "HOL-Library.Multiset"
begin

section \<open>Results of calls\<close>

text \<open>
  A Go function of \<^verbatim>\<open>datasource.go\<close> either returns a value with a nil error, returns an
  error, or panics (a nil pointer is dereferenced, a slice is indexed out of range).
\<close>

datatype 'a outcome = Returned 'a | Failed string | Panics

text \<open>\<^verbatim>\<open>v, err := call(); if err != nil { return nil, err }\<close>\<close>

definition orFail :: "string + 'a \<Rightarrow> ('a \<Rightarrow> 'b outcome) \<Rightarrow> 'b outcome" where
  "orFail r k = (case r of Inl err \<Rightarrow> Failed err | Inr v \<Rightarrow> k v)"

type_synonym int64 = "64 word"

text \<open>Go's \<^verbatim>\<open>/\<close> and \<^verbatim>\<open>%\<close> on \<^verbatim>\<open>int64\<close> truncate towards zero.\<close>

definition quo :: "int64 \<Rightarrow> int64 \<Rightarrow> int64" where
  "quo a b = word_of_int (sint a sdiv sint b)"

definition rem :: "int64 \<Rightarrow> int64 \<Rightarrow> int64" where
  "rem a b = word_of_int (sint a smod sint b)"

section \<open>The remote service\<close>

text \<open>
  The AWS SDK is not part of the repository. One paginated call is modelled by what the service
  would deliver if every page were asked for: the pages in order, finitely many, followed
  either by the end of the listing (\<open>failure = None\<close>) or by a request that fails
  (\<open>failure = Some err\<close>).
\<close>

datatype 'p remote = Remote (pages: "'p list") (failure: "string option")

text \<open>
  The SDK's \<^verbatim>\<open>XxxPages(input, fn)\<close>: \<^verbatim>\<open>for p.Next() { if !fn(p.Page(), !p.HasNextPage()) { break } }; return p.Err()\<close>.
  The callback gets the page and the flag \<^verbatim>\<open>lastPage\<close>, updates the state it closes over and
  answers whether to go on; \<open>None\<close> is a panic inside the callback.
\<close>

fun eachPage :: "('p \<Rightarrow> bool \<Rightarrow> 's \<Rightarrow> ('s \<times> bool) option) \<Rightarrow> string option \<Rightarrow> 'p list \<Rightarrow> 's \<Rightarrow> 's outcome" where
  "eachPage fn fail [] s = (case fail of None \<Rightarrow> Returned s | Some e \<Rightarrow> Failed e)"
| "eachPage fn fail (page # rest) s =
     (case fn page (rest = [] \<and> fail = None) s of
        None \<Rightarrow> Panics
      | Some (s', continue) \<Rightarrow> if continue then eachPage fn fail rest s' else Returned s')"

text \<open>
  \<^verbatim>\<open>cloudwatchlogs.OutputLogEvent\<close> and \<^verbatim>\<open>cloudwatchlogs.FilteredLogEvent\<close>. The second has the
  fields of the first and two more, so it is written as an extension. The fields the service
  fills in on every event are plain values. \<open>EventId\<close> and \<open>LogStreamName\<close> stay pointers (\<open>None\<close>
  is nil): the engine builds events without an id, and with a stream name taken from the
  target.
\<close>

record OutputLogEvent =
  IngestionTime :: int64
  Message :: string
  Timestamp :: int64

record FilteredLogEvent = OutputLogEvent +
  EventId :: "string option"
  LogStreamName :: "string option"

text \<open>
  \<^verbatim>\<open>cloudwatchlogs.FilterLogEventsInput\<close>, \<^verbatim>\<open>GetLogEventsInput\<close> and \<^verbatim>\<open>StartQueryInput\<close>, with the
  fields the engine reads or writes; the three share four fields. Pointer fields are options:
  \<open>None\<close> is the nil pointer that \<^verbatim>\<open>json.Unmarshal\<close> leaves when the target's JSON omits the
  field. \<open>Limit\<close> is only ever compared, so it is an \<open>int\<close>.
\<close>

record LogEventsInput =
  StartTime :: "int64 option"
  EndTime :: "int64 option"
  LogGroupName :: "string option"
  Limit :: "int option"

record FilterLogEventsInput = LogEventsInput +
  FilterPattern :: "string option"
  LogStreamNames :: "string option list"

record GetLogEventsInput = LogEventsInput +
  LogStreamName :: "string option"
  StartFromHead :: "bool option"

record StartQueryInput = LogEventsInput +
  LogGroupNames :: "string option list option"
  QueryString :: "string option"

text \<open>\<^verbatim>\<open>cloudwatchlogs.QueryInfo\<close>, \<^verbatim>\<open>ResultField\<close> and \<^verbatim>\<open>GetQueryResultsOutput\<close>.\<close>

record QueryInfo =
  QueryId :: string
  Status :: string

record ResultField =
  Field :: string
  Value :: string

record GetQueryResultsOutput =
  Results :: "ResultField list list"
  Status :: string

text \<open>
  \<^verbatim>\<open>cloudwatchlogs.LogGroup\<close> and \<^verbatim>\<open>LogStream\<close>. The creation time is only ever compared, so
  it is an \<open>int\<close>.
\<close>

record LogGroup =
  CreationTime :: int
  LogGroupName :: string

record LogStream =
  CreationTime :: int
  LogStreamName :: string

text \<open>
  The client \<^verbatim>\<open>*cloudwatchlogs.CloudWatchLogs\<close>, with the calls the engine makes. A call that is
  not paginated answers with an error or its output. \<open>StartQuery\<close> answers with the query id,
  \<open>DescribeQueries\<close> takes the log group name, \<open>GetQueryResults\<close> and \<open>StopQuery\<close> the query id,
  \<open>DescribeLogGroupsPages\<close> the name prefix, \<open>DescribeLogStreamsPages\<close> the log group name and
  the name prefix.
\<close>

record CloudWatchLogs =
  FilterLogEventsPages :: "FilterLogEventsInput \<Rightarrow> FilteredLogEvent list remote"
  GetLogEventsPages :: "GetLogEventsInput \<Rightarrow> OutputLogEvent list remote"
  StartQuery :: "StartQueryInput \<Rightarrow> string + string"
  DescribeQueries :: "string option \<Rightarrow> string + QueryInfo list"
  GetQueryResults :: "string \<Rightarrow> string + GetQueryResultsOutput"
  StopQuery :: "string \<Rightarrow> string + unit"
  DescribeLogGroupsPages :: "string option \<Rightarrow> LogGroup list remote"
  DescribeLogStreamsPages :: "string option \<Rightarrow> string option \<Rightarrow> LogStream list remote"

section \<open>Requests and responses of the host\<close>

text \<open>
  The types of \<^verbatim>\<open>grafana-plugin-model/go/datasource\<close>. A table cell is a \<^verbatim>\<open>RowValue\<close> of kind
  \<^verbatim>\<open>TYPE_STRING\<close> everywhere in the engine, so a row is a list of strings, and a column is its
  name. \<^verbatim>\<open>float64\<close> is the type parameter \<open>'f\<close>. \<open>MetaJson\<close> is the text \<^verbatim>\<open>json.Marshal\<close> makes;
  the model keeps the value that is marshalled: nothing (the empty string), the entries of a
  \<^verbatim>\<open>map[string]string\<close>, which JSON lists by key, or the events of a retrieval.
\<close>

record Query =
  ModelJson :: string

record TimeRange =
  FromRaw :: string
  ToRaw :: string

record DatasourceRequest =
  TimeRange :: TimeRange
  Queries :: "Query list"

record Table =
  Columns :: "string list"
  Rows :: "string list list"

record 'f Point =
  Timestamp :: int64
  Value :: 'f

record 'f TimeSeries =
  Name :: string
  Tags :: "(string \<times> string) list"
  Points :: "'f Point list"

datatype meta = NoMeta | MapMeta "(string \<times> string) list" | EventsMeta "FilteredLogEvent list"

record 'f QueryResult =
  Error :: string
  RefId :: string
  MetaJson :: meta
  Series :: "'f TimeSeries list"
  Tables :: "Table list"

record 'f DatasourceResponse =
  Results :: "'f QueryResult list"

text \<open>\<^verbatim>\<open>&datasource.QueryResult{}\<close>: every field at its zero value.\<close>

definition zeroResult :: "'f QueryResult" where
  "zeroResult = \<lparr>Error = '''', QueryResult.RefId = '''', MetaJson = NoMeta, Series = [], Tables = []\<rparr>"

text \<open>The struct of lines 26 to 40.\<close>

record Target =
  RefId :: string
  QueryType :: string
  Format :: string
  Region :: string
  UseInsights :: bool
  Input :: FilterLogEventsInput
  InputInsightsStartQuery :: StartQueryInput
  InputInsightsQueryId :: string
  QueryId :: string
  LegendFormat :: string
  TimestampColumn :: string
  ValueColumn :: string
  StartFromHead :: bool

text \<open>
  A \<^verbatim>\<open>time.Time\<close>, as far as the engine looks at it: \<^verbatim>\<open>Unix()\<close>, the whole seconds since the
  epoch, and \<^verbatim>\<open>Nanosecond()\<close>, the offset within the second.
\<close>

record Time =
  Unix :: int64
  Nanosecond :: nat

text \<open>
  What the engine calls and \<^verbatim>\<open>datasource.go\<close> does not define:
  \<^item> \<open>getClient\<close>, a method of the datasource defined in another file, from the region to the
    client or an error;
  \<^item> \<open>jsonUnmarshal\<close>, \<^verbatim>\<open>json.Unmarshal\<close> of a query's \<^verbatim>\<open>ModelJson\<close> into a \<open>Target\<close>;
  \<^item> \<open>newJson\<close>, \<^verbatim>\<open>simplejson.NewJson\<close>; the document is given by what \<^verbatim>\<open>Get(key).MustString()\<close>
    answers for each key;
  \<^item> \<open>parseInt\<close>, \<^verbatim>\<open>strconv.ParseInt(s, 10, 64)\<close>;
  \<^item> \<open>timeParse\<close>, \<^verbatim>\<open>time.Parse("2006-01-02 15:04:05.000", s)\<close>;
  \<^item> \<open>parseFloat\<close>, \<^verbatim>\<open>strconv.ParseFloat(s, 64)\<close>;
  \<^item> \<open>timeFormat sec nsec\<close>, \<^verbatim>\<open>time.Unix(sec, nsec).Format(time.RFC3339)\<close>;
  \<^item> \<open>rangeOrder n keys\<close>, the order in which the \<open>n\<close>-th \<^verbatim>\<open>range\<close> loop over a map visits the
    map's keys: Go leaves it unspecified, and it may differ between two loops over equal maps.
\<close>

record 'f Env =
  getClient :: "string \<Rightarrow> string + CloudWatchLogs"
  jsonUnmarshal :: "string \<Rightarrow> string + Target"
  newJson :: "string \<Rightarrow> string + (string \<Rightarrow> string)"
  parseInt :: "string \<Rightarrow> string + int64"
  timeParse :: "string \<Rightarrow> string + Time"
  parseFloat :: "string \<Rightarrow> string + 'f"
  timeFormat :: "int64 \<Rightarrow> int64 \<Rightarrow> string"
  rangeOrder :: "nat \<Rightarrow> string list \<Rightarrow> string list"

section \<open>getLogEvent (lines 368 to 421)\<close>

text \<open>The callback of lines 377 to 386; \<open>events\<close> is \<^verbatim>\<open>resp.Events\<close>.\<close>

definition filterCallback :: "int option \<Rightarrow> FilteredLogEvent list \<Rightarrow> bool \<Rightarrow> FilteredLogEvent list
    \<Rightarrow> (FilteredLogEvent list \<times> bool) option" where
  "filterCallback limit page lastPage events =
     (let events' = events @ page in
      if length events' > 10000 then Some (events', False)
      else case limit of
             None \<Rightarrow> None
           | Some l \<Rightarrow> if int (length events') \<ge> l then Some (events', False)
                       else Some (events', \<not> lastPage))"

text \<open>Lines 399 to 404: the record built from one event of the direct stream read.\<close>

definition synthesize :: "string option \<Rightarrow> OutputLogEvent \<Rightarrow> FilteredLogEvent" where
  "synthesize streamName e =
     \<lparr>IngestionTime = IngestionTime e, Message = Message e,
      OutputLogEvent.Timestamp = OutputLogEvent.Timestamp e,
      EventId = None, FilteredLogEvent.LogStreamName = streamName\<rparr>"

text \<open>The callback of lines 397 to 414.\<close>

definition getCallback :: "int option \<Rightarrow> string option \<Rightarrow> OutputLogEvent list \<Rightarrow> bool
    \<Rightarrow> FilteredLogEvent list \<Rightarrow> (FilteredLogEvent list \<times> bool) option" where
  "getCallback limit streamName page lastPage events =
     (let events' = foldl (\<lambda>acc e. acc @ [synthesize streamName e]) events page in
      if length events' > 10000 then Some (events', False)
      else case limit of
             None \<Rightarrow> None
           | Some l \<Rightarrow> if int (length events') \<ge> l then Some (events', False)
                       else Some (events', \<not> lastPage))"

text \<open>Line 376: the filter strategy.\<close>

definition filterStrategy :: "CloudWatchLogs \<Rightarrow> FilterLogEventsInput \<Rightarrow> FilteredLogEvent list outcome" where
  "filterStrategy svc input =
     (let r = FilterLogEventsPages svc input
      in eachPage (filterCallback (Limit input)) (failure r) (pages r) [])"

text \<open>Lines 388 to 395: the input of the direct stream read.\<close>

definition streamInput :: "FilterLogEventsInput \<Rightarrow> bool \<Rightarrow> GetLogEventsInput" where
  "streamInput input startFromHead =
     \<lparr>StartTime = StartTime input, EndTime = EndTime input,
      LogEventsInput.LogGroupName = LogEventsInput.LogGroupName input, Limit = Limit input,
      GetLogEventsInput.LogStreamName = hd (LogStreamNames input),
      GetLogEventsInput.StartFromHead = Some startFromHead\<rparr>"

text \<open>Lines 388 to 414: the single-stream strategy.\<close>

definition streamStrategy :: "CloudWatchLogs \<Rightarrow> FilterLogEventsInput \<Rightarrow> bool \<Rightarrow> FilteredLogEvent list outcome" where
  "streamStrategy svc input startFromHead =
     (let r = GetLogEventsPages svc (streamInput input startFromHead)
      in eachPage (getCallback (Limit input) (hd (LogStreamNames input))) (failure r) (pages r) [])"

text \<open>
  Line 375 dereferences \<^verbatim>\<open>input.FilterPattern\<close> first; the right operand of \<^verbatim>\<open>||\<close> is only
  evaluated when the pattern is empty. \<^verbatim>\<open>LogStreamNames[0]\<close> is read only where the length
  is 1.
\<close>

definition getLogEvent :: "(string \<Rightarrow> string + CloudWatchLogs) \<Rightarrow> string \<Rightarrow> FilterLogEventsInput \<Rightarrow> bool
    \<Rightarrow> FilteredLogEvent list outcome" where
  "getLogEvent client region input startFromHead =
     (case client region of
        Inl err \<Rightarrow> Failed err
      | Inr svc \<Rightarrow>
          (case FilterPattern input of
             None \<Rightarrow> Panics
           | Some pat \<Rightarrow>
               if pat \<noteq> '''' \<or> length (LogStreamNames input) \<noteq> 1
               then filterStrategy svc input
               else streamStrategy svc input startFromHead))"

section \<open>parseTableResponse (lines 423 to 445)\<close>

text \<open>
  One row per event (lines 431 to 438). \<^verbatim>\<open>*e.LogStreamName\<close> is the one dereference of a
  pointer that the engine may itself have set.
\<close>

definition eventRow :: "(int64 \<Rightarrow> int64 \<Rightarrow> string) \<Rightarrow> FilteredLogEvent \<Rightarrow> string list option" where
  "eventRow format e =
     (let timestamp = format (quo (OutputLogEvent.Timestamp e) 1000)
                             (rem (OutputLogEvent.Timestamp e) 1000 * 1000 * 1000);
          ingestionTime = format (quo (IngestionTime e) 1000) (rem (IngestionTime e) 1000 * 1000 * 1000)
      in case FilteredLogEvent.LogStreamName e of
           None \<Rightarrow> None
         | Some streamName \<Rightarrow> Some [timestamp, ingestionTime, streamName, Message e])"

fun eventRows :: "(int64 \<Rightarrow> int64 \<Rightarrow> string) \<Rightarrow> FilteredLogEvent list \<Rightarrow> string list list
    \<Rightarrow> string list list option" where
  "eventRows format [] rows = Some rows"
| "eventRows format (e # es) rows =
     (case eventRow format e of
        None \<Rightarrow> None
      | Some row \<Rightarrow> eventRows format es (rows @ [row]))"

definition parseTableResponse :: "(int64 \<Rightarrow> int64 \<Rightarrow> string) \<Rightarrow> FilteredLogEvent list \<Rightarrow> string
    \<Rightarrow> 'f QueryResult outcome" where
  "parseTableResponse format resp refId =
     (case eventRows format resp [] of
        None \<Rightarrow> Panics
      | Some rows \<Rightarrow>
          Returned (zeroResult\<lparr>QueryResult.RefId := refId,
            Tables := [\<lparr>Columns = [''Timestamp'', ''IngestionTime'', ''LogStreamName'', ''Message''],
                        Rows = rows\<rparr>]\<rparr>))"

section \<open>handleQuery (lines 142 to 183)\<close>

text \<open>Lines 153 to 162: every query is decoded, and given the time range, before any retrieval.\<close>

fun decodeTargets :: "(string \<Rightarrow> string + Target) \<Rightarrow> int64 \<Rightarrow> int64 \<Rightarrow> Query list \<Rightarrow> Target list
    \<Rightarrow> string + Target list" where
  "decodeTargets unmarshal fromRaw toRaw [] targets = Inr targets"
| "decodeTargets unmarshal fromRaw toRaw (query # rest) targets =
     (case unmarshal (ModelJson query) of
        Inl err \<Rightarrow> Inl err
      | Inr target \<Rightarrow>
          decodeTargets unmarshal fromRaw toRaw rest
            (targets @ [target\<lparr>Input := (Input target)\<lparr>StartTime := Some fromRaw, EndTime := Some toRaw\<rparr>\<rparr>]))"

text \<open>Lines 164 to 180; \<open>results\<close> is \<^verbatim>\<open>response.Results\<close>.\<close>

fun retrieveTargets :: "'f Env \<Rightarrow> Target list \<Rightarrow> 'f QueryResult list \<Rightarrow> 'f QueryResult list outcome" where
  "retrieveTargets env [] results = Returned results"
| "retrieveTargets env (target # rest) results =
     (case getLogEvent (getClient env) (Region target) (Input target) (Target.StartFromHead target) of
        Failed err \<Rightarrow> Failed err
      | Panics \<Rightarrow> Panics
      | Returned resp \<Rightarrow>
          if Format target = ''timeserie'' then Failed ''not supported''
          else if Format target = ''table'' then
            (case parseTableResponse (timeFormat env) resp (Target.RefId target) of
               Failed err \<Rightarrow> Failed err
             | Panics \<Rightarrow> Panics
             | Returned r \<Rightarrow> retrieveTargets env rest (results @ [r]))
          else retrieveTargets env rest results)"

definition handleQuery :: "'f Env \<Rightarrow> DatasourceRequest \<Rightarrow> 'f DatasourceResponse outcome" where
  "handleQuery env tsdbReq =
     orFail (parseInt env (FromRaw (TimeRange tsdbReq))) (\<lambda>fromRaw.
     orFail (parseInt env (ToRaw (TimeRange tsdbReq))) (\<lambda>toRaw.
     orFail (decodeTargets (jsonUnmarshal env) fromRaw toRaw (Queries tsdbReq) []) (\<lambda>targets.
       case retrieveTargets env targets [] of
         Failed err \<Rightarrow> Failed err
       | Panics \<Rightarrow> Panics
       | Returned results \<Rightarrow> Returned \<lparr>DatasourceResponse.Results = results\<rparr>)))"

section \<open>formatLegend (lines 447 to 468)\<close>

text \<open>
  A Go \<^verbatim>\<open>map[string]string\<close> is an association list with distinct keys; \<^verbatim>\<open>kv[k] = v\<close> is
  \<^const>\<open>AList.update\<close> and a lookup is \<^const>\<open>map_of\<close>. The position of an entry in the list has
  no meaning: \<^verbatim>\<open>for k, v := range m\<close> visits the entries in the order of the keys that the
  runtime picks, here \<open>visit\<close>.
\<close>

definition rangeMap :: "(string list \<Rightarrow> string list) \<Rightarrow> (string \<times> 'v) list \<Rightarrow> (string \<times> 'v) list" where
  "rangeMap visit m = List.map_filter (\<lambda>k. map_option (Pair k) (map_of m k)) (visit (map fst m))"

text \<open>\<^verbatim>\<open>strings.Join(l, sep)\<close>\<close>

fun Join :: "string list \<Rightarrow> string \<Rightarrow> string" where
  "Join [] sep = []"
| "Join [x] sep = x"
| "Join (x # y # ys) sep = x @ sep @ Join (y # ys) sep"

text \<open>
  The pattern of line 47, \<^verbatim>\<open>\{\{\s*(.+?)\s*\}\}\<close>, matched the way Go's \<^verbatim>\<open>regexp\<close> does: the match
  a backtracking search finds first. Strings are bytes; the pattern's literals and \<^verbatim>\<open>\s\<close> are
  ASCII, and \<^verbatim>\<open>.\<close> takes any character but the newline, so matching byte by byte finds the
  same matches as matching UTF-8 characters. \<^verbatim>\<open>\s\<close> is \<^verbatim>\<open>[\t\n\f\r ]\<close>.
\<close>

definition reSpace :: "char \<Rightarrow> bool" where
  "reSpace c \<longleftrightarrow> c = CHR 0x09 \<or> c = CHR 0x0A \<or> c = CHR 0x0C \<or> c = CHR 0x0D \<or> c = CHR 0x20"

text \<open>
  \<^verbatim>\<open>\s*\}\}\<close> with \<open>n\<close> characters of white space taken: greedy, so the longest run is tried
  first and given back one character at a time. The answer is the input left after the match.
\<close>

fun closeAfter :: "nat \<Rightarrow> string \<Rightarrow> string option" where
  "closeAfter 0 s = (if take 2 s = ''}}'' then Some (drop 2 s) else None)"
| "closeAfter (Suc n) s =
     (if take 2 (drop (Suc n) s) = ''}}'' then Some (drop (Suc n + 2) s) else closeAfter n s)"

text \<open>
  \<^verbatim>\<open>(.+?)\s*\}\}\<close>: the group is lazy, so it takes one character and grows only when the rest of
  the pattern does not match behind it.
\<close>

fun nameThenClose :: "string \<Rightarrow> string option" where
  "nameThenClose [] = None"
| "nameThenClose (c # cs) =
     (if c = CHR 0x0A then None
      else case closeAfter (length (takeWhile reSpace cs)) cs of
             Some rest \<Rightarrow> Some rest
           | None \<Rightarrow> nameThenClose cs)"

text \<open>\<^verbatim>\<open>\s*(.+?)\s*\}\}\<close> with \<open>n\<close> characters of leading white space taken, greedy again.\<close>

fun openAfter :: "nat \<Rightarrow> string \<Rightarrow> string option" where
  "openAfter 0 s = nameThenClose s"
| "openAfter (Suc n) s =
     (case nameThenClose (drop (Suc n) s) of
        Some rest \<Rightarrow> Some rest
      | None \<Rightarrow> openAfter n s)"

text \<open>The match of the whole pattern at the head of \<open>s\<close>: the input left after it, if there is one.\<close>

definition matchAt :: "string \<Rightarrow> string option" where
  "matchAt s =
     (if take 2 s = ''{{'' then openAfter (length (takeWhile reSpace (drop 2 s))) (drop 2 s)
      else None)"

text \<open>
  \<^verbatim>\<open>legendFormatPattern.ReplaceAllFunc(src, repl)\<close>: the leftmost match is replaced by what
  \<open>repl\<close> makes of the matched text, and the search goes on behind it.
\<close>

function replaceAllFunc :: "(string \<Rightarrow> string) \<Rightarrow> string \<Rightarrow> string" where
  "replaceAllFunc repl [] = []"
| "replaceAllFunc repl (c # cs) =
     (case matchAt (c # cs) of
        None \<Rightarrow> c # replaceAllFunc repl cs
      | Some rest \<Rightarrow>
          repl (take (length (c # cs) - length rest) (c # cs)) @ replaceAllFunc repl rest)"
  by pat_completeness auto
termination
proof (relation "measure (\<lambda>(repl, s). length s)")
  have closeAfter_shorter: "length r < length s" if "closeAfter n s = Some r" for n s r
    using that
  proof (induction n)
    case 0
    then have "take 2 s = ''}}''" and "r = drop 2 s"
      by (auto split: if_splits)
    moreover from this have "s \<noteq> []" by auto
    ultimately show ?case by simp
  next
    case (Suc n)
    show ?case
    proof (cases "take 2 (drop (Suc n) s) = ''}}''")
      case True
      then have "drop (Suc n) s \<noteq> []" by auto
      moreover from True Suc.prems have "r = drop (Suc n + 2) s" by simp
      ultimately show ?thesis by simp
    next
      case False
      with Suc show ?thesis by simp
    qed
  qed
  have name_shorter: "length r < length s" if "nameThenClose s = Some r" for s r
    using that
  proof (induction s)
    case Nil
    then show ?case by simp
  next
    case (Cons c cs)
    then show ?case
      by (auto split: if_splits option.splits dest: closeAfter_shorter)
  qed
  have openAfter_shorter: "length r < length s" if "openAfter n s = Some r" for n s r
    using that
  proof (induction n)
    case 0
    then show ?case by (simp add: name_shorter)
  next
    case (Suc n)
    show ?case
    proof (cases "nameThenClose (drop (Suc n) s)")
      case None
      with Suc show ?thesis by simp
    next
      case (Some r')
      with Suc.prems have "r' = r" by simp
      with Some have "nameThenClose (drop (Suc n) s) = Some r" by simp
      then have "length r < length (drop (Suc n) s)" by (rule name_shorter)
      then show ?thesis by simp
    qed
  qed
  fix repl :: "string \<Rightarrow> string" and c :: char and cs rest :: string
  assume "matchAt (c # cs) = Some rest"
  then have "openAfter (length (takeWhile reSpace (drop 2 (c # cs)))) (drop 2 (c # cs)) = Some rest"
    by (simp add: matchAt_def split: if_splits)
  then have "length rest < length (drop 2 (c # cs))"
    by (rule openAfter_shorter)
  then show "((repl, rest), (repl, c # cs)) \<in> measure (\<lambda>(repl, s). length s)"
    by simp
qed simp_all

text \<open>\<^verbatim>\<open>strings.Replace(s, old, "", 1)\<close> for a non-empty \<open>old\<close>: the first occurrence is removed.\<close>

fun removeFirst :: "string \<Rightarrow> string \<Rightarrow> string" where
  "removeFirst old [] = []"
| "removeFirst old (c # cs) =
     (if take (length old) (c # cs) = old then drop (length old) (c # cs)
      else c # removeFirst old cs)"

text \<open>
  \<^verbatim>\<open>strings.TrimSpace\<close> cuts Unicode white space from both ends. In UTF-8 a white space
  character is one byte (tab, newline, vertical tab, form feed, carriage return, space), two
  bytes (U+0085, U+00A0) or three (U+1680, U+2000 to U+200A, U+2028, U+2029, U+202F, U+205F,
  U+3000).
\<close>

definition space1 :: "char \<Rightarrow> bool" where
  "space1 a \<longleftrightarrow> a = CHR 0x09 \<or> a = CHR 0x0A \<or> a = CHR 0x0B \<or> a = CHR 0x0C \<or> a = CHR 0x0D \<or> a = CHR 0x20"

definition space2 :: "char \<Rightarrow> char \<Rightarrow> bool" where
  "space2 a b \<longleftrightarrow> a = CHR 0xC2 \<and> (b = CHR 0x85 \<or> b = CHR 0xA0)"

definition space3 :: "char \<Rightarrow> char \<Rightarrow> char \<Rightarrow> bool" where
  "space3 a b c \<longleftrightarrow>
     a = CHR 0xE1 \<and> b = CHR 0x9A \<and> c = CHR 0x80
   \<or> a = CHR 0xE2 \<and> b = CHR 0x80 \<and>
       ((0x80::nat) \<le> of_char c \<and> of_char c \<le> (0x8A::nat) \<or> c = CHR 0xA8 \<or> c = CHR 0xA9 \<or> c = CHR 0xAF)
   \<or> a = CHR 0xE2 \<and> b = CHR 0x81 \<and> c = CHR 0x9F
   \<or> a = CHR 0xE3 \<and> b = CHR 0x80 \<and> c = CHR 0x80"

fun trimLeft :: "string \<Rightarrow> string" where
  "trimLeft [] = []"
| "trimLeft [a] = (if space1 a then [] else [a])"
| "trimLeft [a, b] = (if space1 a then trimLeft [b] else if space2 a b then [] else [a, b])"
| "trimLeft (a # b # c # s) =
     (if space1 a then trimLeft (b # c # s)
      else if space2 a b then trimLeft (c # s)
      else if space3 a b c then trimLeft s
      else a # b # c # s)"

text \<open>The same from the other end, on the reversed string: \<open>c\<close> is the last byte.\<close>

fun trimRightRev :: "string \<Rightarrow> string" where
  "trimRightRev [] = []"
| "trimRightRev [c] = (if space1 c then [] else [c])"
| "trimRightRev [c, b] = (if space1 c then trimRightRev [b] else if space2 b c then [] else [c, b])"
| "trimRightRev (c # b # a # s) =
     (if space1 c then trimRightRev (b # a # s)
      else if space2 b c then trimRightRev (a # s)
      else if space3 a b c then trimRightRev s
      else c # b # a # s)"

definition TrimSpace :: "string \<Rightarrow> string" where
  "TrimSpace s = rev (trimRightRev (rev (trimLeft s)))"

text \<open>The function of lines 456 to 465; \<open>matched\<close> is its argument \<^verbatim>\<open>in\<close>.\<close>

definition legendReplace :: "(string \<times> string) list \<Rightarrow> string \<Rightarrow> string" where
  "legendReplace kv matched =
     (let columnName = removeFirst ''{{'' matched;
          columnName = removeFirst ''}}'' columnName;
          columnName = TrimSpace columnName
      in case map_of kv columnName of
           Some val \<Rightarrow> val
         | None \<Rightarrow> matched)"

definition formatLegend :: "(string list \<Rightarrow> string list) \<Rightarrow> (string \<times> string) list \<Rightarrow> string \<Rightarrow> string" where
  "formatLegend visit kv legendFormat =
     (if legendFormat = '''' then
        ''{'' @ Join (map (\<lambda>(k, v). k @ [CHR ''='', CHR 0x22] @ v @ [CHR 0x22]) (rangeMap visit kv)) '','' @ ''}''
      else replaceAllFunc (legendReplace kv) legendFormat)"

section \<open>handleInsightsQuery (lines 185 to 366)\<close>

text \<open>
  Lines 232 to 236: the log group that \<^verbatim>\<open>DescribeQueries\<close> is asked about. \<open>None\<close> is the panic of
  \<^verbatim>\<open>LogGroupNames[0]\<close> on a slice that is not nil and empty.
\<close>

definition describeInput :: "StartQueryInput \<Rightarrow> string option option" where
  "describeInput q =
     (case LogGroupNames q of
        None \<Rightarrow> Some (LogEventsInput.LogGroupName q)
      | Some [] \<Rightarrow> None
      | Some (name # _) \<Rightarrow> Some name)"

text \<open>Lines 240 to 245: the last query of the listing with the target's id.\<close>

definition findQuery :: "string \<Rightarrow> QueryInfo list \<Rightarrow> QueryInfo option" where
  "findQuery queryId queries =
     foldl (\<lambda>found query. if QueryInfo.QueryId query = queryId then Some query else found) None queries"

text \<open>
  Lines 301 to 319: the columns of one result row, in order. The state is \<^verbatim>\<open>timestamp\<close>,
  \<^verbatim>\<open>value\<close> and \<^verbatim>\<open>kv\<close>; a \<^verbatim>\<open>switch\<close> takes the first case that matches.
\<close>

fun readRow :: "'f Env \<Rightarrow> Target \<Rightarrow> ResultField list \<Rightarrow> int64 \<times> 'f \<times> (string \<times> string) list
    \<Rightarrow> string + int64 \<times> 'f \<times> (string \<times> string) list" where
  "readRow env target [] state = Inr state"
| "readRow env target (d # ds) (timestamp, value, kv) =
     (let columnName = Field d in
      if columnName = TimestampColumn target then
        (case timeParse env (ResultField.Value d) of
           Inl err \<Rightarrow> Inl err
         | Inr t \<Rightarrow> readRow env target ds (Unix t * 1000, value, kv))
      else if columnName = ValueColumn target then
        (case parseFloat env (ResultField.Value d) of
           Inl err \<Rightarrow> Inl err
         | Inr v \<Rightarrow> readRow env target ds (timestamp, v, kv))
      else readRow env target ds (timestamp, value, AList.update columnName (ResultField.Value d) kv))"

text \<open>Lines 322 to 332; \<open>series\<close> is the map from names to time series.\<close>

definition addPoint :: "string \<Rightarrow> (string \<times> string) list \<Rightarrow> 'f Point \<Rightarrow> (string \<times> 'f TimeSeries) list
    \<Rightarrow> (string \<times> 'f TimeSeries) list" where
  "addPoint name kv point series =
     (let series' = (case map_of series name of
                       None \<Rightarrow> AList.update name \<lparr>Name = name, Tags = kv, Points = []\<rparr> series
                     | Some _ \<Rightarrow> series)
      in AList.map_entry name (\<lambda>ss. ss\<lparr>Points := Points ss @ [point]\<rparr>) series')"

text \<open>Lines 295 to 333: the loop over the result rows; \<open>i\<close> counts them.\<close>

fun collectSeries :: "('f::zero) Env \<Rightarrow> Target \<Rightarrow> nat \<Rightarrow> ResultField list list
    \<Rightarrow> (string \<times> 'f TimeSeries) list \<Rightarrow> string + (string \<times> 'f TimeSeries) list" where
  "collectSeries env target i [] series = Inr series"
| "collectSeries env target i (r # rs) series =
     (case readRow env target r (0, 0, []) of
        Inl err \<Rightarrow> Inl err
      | Inr (timestamp, value, kv) \<Rightarrow>
          (let name = formatLegend (rangeOrder env i) kv (LegendFormat target)
           in collectSeries env target (Suc i) rs
                (addPoint name kv \<lparr>Timestamp = timestamp, Value = value\<rparr> series)))"

text \<open>A response with the one result that carries the target's \<^verbatim>\<open>RefId\<close> and the metadata only.\<close>

definition metaResponse :: "Target \<Rightarrow> (string \<times> string) list \<Rightarrow> 'f DatasourceResponse" where
  "metaResponse target entries =
     \<lparr>DatasourceResponse.Results =
        [zeroResult\<lparr>QueryResult.RefId := Target.RefId target, MetaJson := MapMeta entries\<rparr>]\<rparr>"

text \<open>
  Lines 231 to 365: a target that has a query id. The answer of \<^verbatim>\<open>StopQuery\<close> (line 272) is
  dropped, so the call leaves no trace in the result.
\<close>

definition resumeQuery :: "('f::zero) Env \<Rightarrow> CloudWatchLogs \<Rightarrow> Target \<Rightarrow> 'f DatasourceResponse outcome" where
  "resumeQuery env svc target =
     (case describeInput (InputInsightsStartQuery target) of
        None \<Rightarrow> Panics
      | Some logGroupName \<Rightarrow>
          orFail (DescribeQueries svc logGroupName) (\<lambda>queries.
            case findQuery (Target.QueryId target) queries of
              None \<Rightarrow> Failed (Target.QueryId target @ '' is not found'')
            | Some info \<Rightarrow>
                if QueryInfo.Status info \<noteq> ''Complete'' then
                  Returned (metaResponse target
                    [(''QueryId'', Target.QueryId target), (''Status'', QueryInfo.Status info)])
                else
                  orFail (GetQueryResults svc (Target.QueryId target)) (\<lambda>gresp.
                    if GetQueryResultsOutput.Status gresp \<noteq> ''Complete'' then Failed ''unexpected status''
                    else
                      let queryIdJson = [(''QueryId'', Target.QueryId target),
                                         (''Status'', GetQueryResultsOutput.Status gresp)];
                          results = GetQueryResultsOutput.Results gresp
                      in if length results = 0 then Returned (metaResponse target queryIdJson)
                         else if Format target = ''timeserie'' then
                           orFail (collectSeries env target 0 results []) (\<lambda>series.
                             Returned \<lparr>DatasourceResponse.Results =
                               [zeroResult\<lparr>QueryResult.RefId := Target.RefId target,
                                  Series := map snd (rangeMap (rangeOrder env (length results)) series),
                                  MetaJson := MapMeta queryIdJson\<rparr>]\<rparr>)
                         else
                           Returned \<lparr>DatasourceResponse.Results =
                             [zeroResult\<lparr>QueryResult.RefId := Target.RefId target,
                                Tables := [\<lparr>Columns = map Field (hd results),
                                            Rows = map (map ResultField.Value) results\<rparr>],
                                MetaJson := MapMeta queryIdJson\<rparr>]\<rparr>)))"

definition handleInsightsQuery :: "('f::zero) Env \<Rightarrow> DatasourceRequest \<Rightarrow> Query \<Rightarrow> 'f DatasourceResponse outcome" where
  "handleInsightsQuery env tsdbReq query =
     orFail (parseInt env (FromRaw (TimeRange tsdbReq))) (\<lambda>fromRaw.
     orFail (parseInt env (ToRaw (TimeRange tsdbReq))) (\<lambda>toRaw.
     orFail (jsonUnmarshal env (ModelJson query)) (\<lambda>decoded.
       let target = decoded\<lparr>InputInsightsStartQuery :=
                      (InputInsightsStartQuery decoded)\<lparr>StartTime := Some fromRaw, EndTime := Some toRaw\<rparr>\<rparr>
       in orFail (getClient env (Region target)) (\<lambda>svc.
            if Target.QueryId target = '''' then
              orFail (StartQuery svc (InputInsightsStartQuery target)) (\<lambda>queryId.
                Returned (metaResponse target [(''QueryId'', queryId)]))
            else resumeQuery env svc target))))"

section \<open>metricFindQuery and transformToTable (lines 470 to 566)\<close>

record suggestData =
  Text :: string
  Value :: string

text \<open>The callbacks of lines 493 to 499 and 521 to 527 are the same function of the page.\<close>

definition suggestCallback :: "'a list \<Rightarrow> bool \<Rightarrow> 'a list \<Rightarrow> ('a list \<times> bool) option" where
  "suggestCallback page lastPage listed =
     (let listed' = listed @ page in
      if length listed' > 100 then Some (listed', False)
      else Some (listed', \<not> lastPage))"

text \<open>
  \<^verbatim>\<open>sort.Slice(xs, less)\<close> sorts in place and promises no order between elements that \<^verbatim>\<open>less\<close>
  (here \<open>before\<close>) does not order. The model is one such sort, by insertion.
\<close>

fun insertSorted :: "('a \<Rightarrow> 'a \<Rightarrow> bool) \<Rightarrow> 'a \<Rightarrow> 'a list \<Rightarrow> 'a list" where
  "insertSorted before x [] = [x]"
| "insertSorted before x (y # ys) = (if before y x then y # insertSorted before x ys else x # y # ys)"

definition sortSlice :: "('a \<Rightarrow> 'a \<Rightarrow> bool) \<Rightarrow> 'a list \<Rightarrow> 'a list" where
  "sortSlice before xs = foldr (insertSorted before) xs []"

definition transformToTable :: "suggestData list \<Rightarrow> Table" where
  "transformToTable data =
     \<lparr>Columns = [''text'', ''value''], Rows = map (\<lambda>r. [Text r, suggestData.Value r]) data\<rparr>"

text \<open>Lines 487 to 509.\<close>

definition logGroupSuggestions :: "CloudWatchLogs \<Rightarrow> (string \<Rightarrow> string) \<Rightarrow> suggestData list outcome" where
  "logGroupSuggestions svc parameters =
     (let prefix = parameters ''logGroupNamePrefix'';
          r = DescribeLogGroupsPages svc (if length prefix > 0 then Some prefix else None)
      in case eachPage suggestCallback (failure r) (pages r) [] of
           Failed err \<Rightarrow> Failed err
         | Panics \<Rightarrow> Panics
         | Returned groups \<Rightarrow>
             Returned (map (\<lambda>g. \<lparr>Text = LogGroup.LogGroupName g, suggestData.Value = LogGroup.LogGroupName g\<rparr>)
               (sortSlice (\<lambda>a b. LogGroup.CreationTime a > LogGroup.CreationTime b) groups)))"

text \<open>Lines 511 to 537.\<close>

definition logStreamSuggestions :: "CloudWatchLogs \<Rightarrow> (string \<Rightarrow> string) \<Rightarrow> suggestData list outcome" where
  "logStreamSuggestions svc parameters =
     (let logGroupName = parameters ''logGroupName'';
          prefix = parameters ''logStreamNamePrefix'';
          r = DescribeLogStreamsPages svc (Some logGroupName) (if length prefix > 0 then Some prefix else None)
      in case eachPage suggestCallback (failure r) (pages r) [] of
           Failed err \<Rightarrow> Failed err
         | Panics \<Rightarrow> Panics
         | Returned streams \<Rightarrow>
             Returned (map (\<lambda>g. \<lparr>Text = LogStream.LogStreamName g, suggestData.Value = LogStream.LogStreamName g\<rparr>)
               (sortSlice (\<lambda>a b. LogStream.CreationTime a > LogStream.CreationTime b) streams)))"

definition metricFindQuery :: "'f Env \<Rightarrow> (string \<Rightarrow> string) \<Rightarrow> 'f DatasourceResponse outcome" where
  "metricFindQuery env parameters =
     orFail (getClient env (parameters ''region'')) (\<lambda>svc.
       let subtype = parameters ''subtype''
       in case (if subtype = ''log_group_names'' then logGroupSuggestions svc parameters
                else if subtype = ''log_stream_names'' then logStreamSuggestions svc parameters
                else Returned []) of
            Failed err \<Rightarrow> Failed err
          | Panics \<Rightarrow> Panics
          | Returned data \<Rightarrow>
              Returned \<lparr>DatasourceResponse.Results =
                [zeroResult\<lparr>QueryResult.RefId := ''metricFindQuery'', Tables := [transformToTable data]\<rparr>]\<rparr>)"

section \<open>Query (lines 50 to 140)\<close>

text \<open>An error handed back as the one result of a response (lines 58 to 65, 115 to 121, 130 to 136).\<close>

definition errorResponse :: "string \<Rightarrow> string \<Rightarrow> 'f DatasourceResponse" where
  "errorResponse refId err =
     \<lparr>DatasourceResponse.Results = [zeroResult\<lparr>QueryResult.RefId := refId, Error := err\<rparr>]\<rparr>"

text \<open>Lines 70 to 101: the annotation query, on the first query of the request.\<close>

definition annotationQuery :: "'f Env \<Rightarrow> DatasourceRequest \<Rightarrow> Query \<Rightarrow> 'f DatasourceResponse outcome" where
  "annotationQuery env tsdbReq query =
     orFail (jsonUnmarshal env (ModelJson query)) (\<lambda>target.
     orFail (parseInt env (FromRaw (TimeRange tsdbReq))) (\<lambda>fromRaw.
     orFail (parseInt env (ToRaw (TimeRange tsdbReq))) (\<lambda>toRaw.
       case getLogEvent (getClient env) (Region target)
              ((Input target)\<lparr>StartTime := Some fromRaw, EndTime := Some toRaw\<rparr>) True of
         Failed err \<Rightarrow> Failed err
       | Panics \<Rightarrow> Panics
       | Returned resp \<Rightarrow>
           Returned \<lparr>DatasourceResponse.Results = [zeroResult\<lparr>MetaJson := EventsMeta resp\<rparr>]\<rparr>)))"

text \<open>Lines 104 to 111.\<close>

fun includeInsights :: "(string \<Rightarrow> string + Target) \<Rightarrow> Query list \<Rightarrow> bool \<Rightarrow> string + bool" where
  "includeInsights unmarshal [] includeInsightsQuery = Inr includeInsightsQuery"
| "includeInsights unmarshal (query # rest) includeInsightsQuery =
     (case unmarshal (ModelJson query) of
        Inl err \<Rightarrow> Inl err
      | Inr target \<Rightarrow> includeInsights unmarshal rest (includeInsightsQuery \<or> UseInsights target))"

text \<open>
  \<^verbatim>\<open>Queries[0]\<close> panics on a request without queries. \<open>Failed\<close> is the return of a nil response
  with an error; an error result is a response that is returned.
\<close>

definition Query :: "('f::zero) Env \<Rightarrow> DatasourceRequest \<Rightarrow> 'f DatasourceResponse outcome" where
  "Query env tsdbReq =
     (case Queries tsdbReq of
        [] \<Rightarrow> Panics
      | first # _ \<Rightarrow>
          orFail (newJson env (ModelJson first)) (\<lambda>modelJson.
            if modelJson ''queryType'' = ''metricFindQuery'' then
              (case metricFindQuery env modelJson of
                 Failed err \<Rightarrow> Returned (errorResponse ''metricFindQuery'' err)
               | response \<Rightarrow> response)
            else if modelJson ''queryType'' = ''annotationQuery'' then annotationQuery env tsdbReq first
            else
              orFail (includeInsights (jsonUnmarshal env) (Queries tsdbReq) False) (\<lambda>includeInsightsQuery.
                if \<not> includeInsightsQuery then
                  (case handleQuery env tsdbReq of
                     Failed err \<Rightarrow> Returned (errorResponse '''' err)
                   | response \<Rightarrow> response)
                else if length (Queries tsdbReq) \<noteq> 1 then
                  Failed ''invalid insights query, it should be single''
                else
                  (case handleInsightsQuery env tsdbReq first of
                     Failed err \<Rightarrow> Returned (errorResponse '''' err)
                   | response \<Rightarrow> response))))"

section \<open>Notions used to state the properties\<close>

text \<open>
  The records the service holds for one retrieval, page by page: the pages of the call that the
  retrieval makes, as the records they become. For the filter strategy these are the pages of
  matching events; for the single-stream strategy, the pages of the direct stream read with
  the stream name attached.
\<close>

definition available :: "CloudWatchLogs \<Rightarrow> FilterLogEventsInput \<Rightarrow> bool \<Rightarrow> FilteredLogEvent list remote" where
  "available svc input startFromHead =
     (if FilterPattern input \<noteq> Some '''' \<or> length (LogStreamNames input) \<noteq> 1
      then FilterLogEventsPages svc input
      else map_remote (map (synthesize (hd (LogStreamNames input))))
             (GetLogEventsPages svc (streamInput input startFromHead)))"

text \<open>
  What the loop of \<^verbatim>\<open>handleInsightsQuery\<close> makes of one result row that it can read: the tags,
  the point, and, for the row number \<open>i\<close>, the name that the legend formatter derives.
\<close>

definition rowTags :: "('f::zero) Env \<Rightarrow> Target \<Rightarrow> ResultField list \<Rightarrow> (string \<times> string) list" where
  "rowTags env target r =
     (case readRow env target r (0, 0, []) of
        Inr (timestamp, value, kv) \<Rightarrow> kv
      | Inl err \<Rightarrow> [])"

definition rowPoint :: "('f::zero) Env \<Rightarrow> Target \<Rightarrow> ResultField list \<Rightarrow> 'f Point" where
  "rowPoint env target r =
     (case readRow env target r (0, 0, []) of
        Inr (timestamp, value, kv) \<Rightarrow> \<lparr>Timestamp = timestamp, Value = value\<rparr>
      | Inl err \<Rightarrow> \<lparr>Timestamp = 0, Value = 0\<rparr>)"

definition rowLegend :: "('f::zero) Env \<Rightarrow> Target \<Rightarrow> nat \<Rightarrow> ResultField list \<Rightarrow> string" where
  "rowLegend env target i r =
     formatLegend (rangeOrder env i) (rowTags env target r) (LegendFormat target)"

text \<open>The rows, numbered from \<open>n\<close>, whose derived name is \<open>name\<close>, in the order of the rows.\<close>

definition rowsNamed :: "('f::zero) Env \<Rightarrow> Target \<Rightarrow> nat \<Rightarrow> ResultField list list \<Rightarrow> string
    \<Rightarrow> ResultField list list" where
  "rowsNamed env target n rows name =
     map snd (filter (\<lambda>(i, r). rowLegend env target i r = name) (enumerate n rows))"

text \<open>The instant of a \<^verbatim>\<open>time.Time\<close> in milliseconds since the epoch, fraction included.\<close>

definition UnixMilli :: "Time \<Rightarrow> int64" where
  "UnixMilli t = Unix t * 1000 + of_nat (Nanosecond t div 1000000)"

text \<open>
  A legend template as the specification reads it: a sequence of plain texts and of
  placeholders \<^verbatim>\<open>{{ fieldName }}\<close>, each with the white space around its name. A plain text has
  no \<^verbatim>\<open>{{\<close> and does not end in \<^verbatim>\<open>{\<close>. A field name is not empty, has no white space around it
  (\<^verbatim>\<open>strings.TrimSpace\<close> leaves it as it is), and has no \<^verbatim>\<open>}\<close> and no newline in it. The white
  space of a placeholder is the pattern's \<^verbatim>\<open>\s\<close>.
\<close>

datatype segment = Text string | Placeholder string string string

fun plainText :: "string \<Rightarrow> bool" where
  "plainText [] = True"
| "plainText [c] = (c \<noteq> CHR ''{'')"
| "plainText (c # d # cs) = ((c \<noteq> CHR ''{'' \<or> d \<noteq> CHR ''{'') \<and> plainText (d # cs))"

definition fieldName :: "string \<Rightarrow> bool" where
  "fieldName name \<longleftrightarrow>
     name \<noteq> [] \<and> TrimSpace name = name \<and> CHR ''}'' \<notin> set name \<and> CHR 0x0A \<notin> set name"

fun wellFormed :: "segment \<Rightarrow> bool" where
  "wellFormed (Text t) = plainText t"
| "wellFormed (Placeholder before name after) =
     (list_all reSpace before \<and> fieldName name \<and> list_all reSpace after)"

text \<open>The text of a template.\<close>

fun template :: "segment list \<Rightarrow> string" where
  "template [] = []"
| "template (Text t # segs) = t @ template segs"
| "template (Placeholder before name after # segs) =
     ''{{'' @ before @ name @ after @ ''}}'' @ template segs"

text \<open>
  The specification's words: every placeholder is replaced by the tag value for its field name
  if there is one, and is left as it is written otherwise.
\<close>

fun filled :: "(string \<times> string) list \<Rightarrow> segment list \<Rightarrow> string" where
  "filled kv [] = []"
| "filled kv (Text t # segs) = t @ filled kv segs"
| "filled kv (Placeholder before name after # segs) =
     (case map_of kv name of
        Some v \<Rightarrow> v
      | None \<Rightarrow> ''{{'' @ before @ name @ after @ ''}}'') @ filled kv segs"

section \<open>Sample data\<close>

text \<open>A service that fails every call, and clients of services that answer one call.\<close>

definition offline :: CloudWatchLogs where
  "offline =
     \<lparr>FilterLogEventsPages = (\<lambda>_. Remote [] (Some ''offline'')),
      GetLogEventsPages = (\<lambda>_. Remote [] (Some ''offline'')),
      StartQuery = (\<lambda>_. Inl ''offline''),
      DescribeQueries = (\<lambda>_. Inl ''offline''),
      GetQueryResults = (\<lambda>_. Inl ''offline''),
      StopQuery = (\<lambda>_. Inl ''offline''),
      DescribeLogGroupsPages = (\<lambda>_. Remote [] (Some ''offline'')),
      DescribeLogStreamsPages = (\<lambda>_ _. Remote [] (Some ''offline''))\<rparr>"

definition filtering :: "FilteredLogEvent list remote \<Rightarrow> string \<Rightarrow> string + CloudWatchLogs" where
  "filtering r region = Inr (offline\<lparr>FilterLogEventsPages := (\<lambda>_. r)\<rparr>)"

definition streaming :: "OutputLogEvent list remote \<Rightarrow> string \<Rightarrow> string + CloudWatchLogs" where
  "streaming r region = Inr (offline\<lparr>GetLogEventsPages := (\<lambda>_. r)\<rparr>)"

definition errorLine :: FilteredLogEvent where
  "errorLine = \<lparr>IngestionTime = 1577836801000, Message = ''ERROR disk full'',
     OutputLogEvent.Timestamp = 1577836800500, EventId = Some ''e1'',
     FilteredLogEvent.LogStreamName = Some ''web-1''\<rparr>"

definition rawLine :: OutputLogEvent where
  "rawLine = \<lparr>IngestionTime = 1577836801000, Message = ''started'',
     OutputLogEvent.Timestamp = 1577836800500\<rparr>"

text \<open>The retrieval input of a target with a filter pattern, stream names and a limit.\<close>

definition search :: "string \<Rightarrow> string option list \<Rightarrow> int option \<Rightarrow> FilterLogEventsInput" where
  "search pat names limit =
     \<lparr>StartTime = None, EndTime = None, LogEventsInput.LogGroupName = Some ''app'', Limit = limit,
      FilterPattern = Some pat, LogStreamNames = names\<rparr>"

text \<open>
  Decoders given by a table from the text to what it decodes to; a text that is not in the
  table is a syntax error.
\<close>

definition parsing :: "(string \<times> 'a) list \<Rightarrow> string \<Rightarrow> string + 'a" where
  "parsing table s = (case map_of table s of None \<Rightarrow> Inl ''syntax error'' | Some v \<Rightarrow> Inr v)"

text \<open>
  A JSON document that answers \<^verbatim>\<open>queryType\<close> with the given type and the other keys from
  the table \<open>answers\<close>.
\<close>

definition document :: "string \<Rightarrow> (string \<times> string) list \<Rightarrow> string \<Rightarrow> string" where
  "document queryType answers key =
     (if key = ''queryType'' then queryType
      else case map_of answers key of None \<Rightarrow> '''' | Some v \<Rightarrow> v)"

text \<open>
  A host: a client, the targets that the queries' JSON texts decode to, what their documents
  answer, and the order in which maps are visited. Floating point numbers are integers here.
\<close>

definition host :: "(string \<Rightarrow> string + CloudWatchLogs) \<Rightarrow> (string \<times> Target) list
    \<Rightarrow> (string \<times> string) list \<Rightarrow> (nat \<Rightarrow> string list \<Rightarrow> string list) \<Rightarrow> int Env" where
  "host client targets answers order =
     \<lparr>getClient = client,
      jsonUnmarshal = parsing targets,
      newJson = (\<lambda>s. case map_of targets s of
                        None \<Rightarrow> Inl ''syntax error''
                      | Some t \<Rightarrow> Inr (document (QueryType t) answers)),
      parseInt = parsing [(''1577836800000'', 1577836800000), (''1577840400000'', 1577840400000)],
      timeParse = parsing
        [(''2020-01-01 00:00:00.000'', \<lparr>Unix = 1577836800, Nanosecond = 0\<rparr>),
         (''2020-01-01 00:00:00.500'', \<lparr>Unix = 1577836800, Nanosecond = 500000000\<rparr>),
         (''2020-01-01 00:05:00.000'', \<lparr>Unix = 1577837100, Nanosecond = 0\<rparr>)],
      parseFloat = parsing [(''3'', 3), (''4'', 4), (''7'', 7)],
      timeFormat = (\<lambda>sec nsec. if sec = 1577836800 then ''2020-01-01T00:00:00Z'' else ''later''),
      rangeOrder = order\<rparr>"

definition hour :: TimeRange where
  "hour = \<lparr>FromRaw = ''1577836800000'', ToRaw = ''1577840400000''\<rparr>"

text \<open>A target of the given format, with a query id, a legend template and a retrieval input.\<close>

definition sampleTarget :: "string \<Rightarrow> string \<Rightarrow> string \<Rightarrow> string \<Rightarrow> bool \<Rightarrow> FilterLogEventsInput \<Rightarrow> Target" where
  "sampleTarget refId format queryId legend insights input =
     \<lparr>Target.RefId = refId, QueryType = ''query'', Format = format, Region = ''eu-west-1'',
      UseInsights = insights, Input = input,
      InputInsightsStartQuery =
        \<lparr>StartTime = None, EndTime = None, LogEventsInput.LogGroupName = Some ''app'', Limit = None,
         LogGroupNames = None, QueryString = Some ''stats count(*) as n by bin(5m) as t, host''\<rparr>,
      InputInsightsQueryId = '''', Target.QueryId = queryId, LegendFormat = legend,
      TimestampColumn = ''t'', ValueColumn = ''n'', Target.StartFromHead = False\<rparr>"

text \<open>A client of a service that answers the two listings; a log group and a log stream.\<close>

definition listing :: "LogGroup list remote \<Rightarrow> LogStream list remote \<Rightarrow> string \<Rightarrow> string + CloudWatchLogs" where
  "listing groups streams region =
     Inr (offline\<lparr>DescribeLogGroupsPages := (\<lambda>_. groups), DescribeLogStreamsPages := (\<lambda>_ _. streams)\<rparr>)"

definition logGroup :: "string \<Rightarrow> int \<Rightarrow> LogGroup" where
  "logGroup name created = \<lparr>LogGroup.CreationTime = created, LogGroup.LogGroupName = name\<rparr>"

definition logStream :: "string \<Rightarrow> int \<Rightarrow> LogStream" where
  "logStream name created = \<lparr>LogStream.CreationTime = created, LogStream.LogStreamName = name\<rparr>"

text \<open>A result row with a time, a count and tags.\<close>

definition resultRow :: "string \<Rightarrow> string \<Rightarrow> (string \<times> string) list \<Rightarrow> ResultField list" where
  "resultRow time number tags =
     \<lparr>Field = ''t'', ResultField.Value = time\<rparr> # \<lparr>Field = ''n'', ResultField.Value = number\<rparr>
       # map (\<lambda>(k, v). \<lparr>Field = k, ResultField.Value = v\<rparr>) tags"

section \<open>Pagination\<close>

text \<open>The two callbacks of \<^verbatim>\<open>getLogEvent\<close> differ only in how a page becomes records.\<close>

lemma getCallback_filterCallback:
  "getCallback limit name page = filterCallback limit (map (synthesize name) page)"
proof -
  have "foldl (\<lambda>acc e. acc @ [synthesize name e]) events page = events @ map (synthesize name) page" for events
    by (induction page arbitrary: events) simp_all
  then show ?thesis
    by (intro ext) (simp add: getCallback_def filterCallback_def)
qed

lemma eachPage_map:
  "eachPage (\<lambda>p. f (g p)) fail ps s = eachPage f fail (map g ps) s"
  by (induction ps arbitrary: s) (simp_all split: option.splits)

lemma filterCallback_Some:
  "filterCallback (Some l) page lastPage events =
     Some (events @ page, \<not> (10000 < length events + length page \<or> l \<le> int (length events + length page)) \<and> \<not> lastPage)"
  by (simp add: filterCallback_def Let_def)

text \<open>
  A callback that appends the page and stops on a condition on the count returns the pages up
  to and including the first one at which the condition holds, or all of them.
\<close>

lemma eachPage_accumulate:
  assumes fn: "\<And>page lastPage acc. fn page lastPage acc = Some (acc @ page, \<not> stop (length acc + length page) \<and> \<not> lastPage)"
  shows "\<exists>k\<le>length ps.
      eachPage fn None ps acc = Returned (acc @ concat (take k ps))
    \<and> (k < length ps \<longrightarrow> stop (length acc + length (concat (take k ps))))
    \<and> (ps \<noteq> [] \<longrightarrow> 0 < k)
    \<and> (\<forall>j. 0 < j \<and> j < k \<longrightarrow> \<not> stop (length acc + length (concat (take j ps))))"
proof (induction ps arbitrary: acc)
  case Nil
  show ?case by simp
next
  case (Cons p ps)
  show ?case
  proof (cases "stop (length acc + length p) \<or> ps = []")
    case True
    then have "eachPage fn None (p # ps) acc = Returned (acc @ p)"
      by (auto simp: fn)
    then show ?thesis
      using True by (intro exI [of _ 1]) auto
  next
    case False
    from Cons.IH [of "acc @ p"] obtain k where k: "k \<le> length ps"
      "eachPage fn None ps (acc @ p) = Returned ((acc @ p) @ concat (take k ps))"
      "k < length ps \<longrightarrow> stop (length (acc @ p) + length (concat (take k ps)))"
      "\<forall>j. 0 < j \<and> j < k \<longrightarrow> \<not> stop (length (acc @ p) + length (concat (take j ps)))"
      by blast
    have run: "eachPage fn None (p # ps) acc = Returned (acc @ concat (take (Suc k) (p # ps)))"
      using False k(2) by (simp add: fn)
    have early: "\<not> stop (length acc + length (concat (take j (p # ps))))" if "0 < j" "j < Suc k" for j
    proof (cases j)
      case 0
      with that show ?thesis by simp
    next
      case (Suc i)
      show ?thesis
      proof (cases i)
        case 0
        with Suc False show ?thesis by simp
      next
        case (Suc i')
        with \<open>j = Suc i\<close> that k(4) have "\<not> stop (length (acc @ p) + length (concat (take i ps)))"
          by simp
        with \<open>j = Suc i\<close> show ?thesis by (simp add: add.assoc)
      qed
    qed
    show ?thesis
      using run k(1,3) early by (intro exI [of _ "Suc k"]) (simp add: add.assoc)
  qed
qed

lemma getLogEvent_eachPage:
  assumes "client region = Inr svc" and "FilterPattern input = Some pat"
    and "available svc input startFromHead = Remote ps fail"
  shows "getLogEvent client region input startFromHead = eachPage (filterCallback (Limit input)) fail ps []"
proof (cases "pat \<noteq> '''' \<or> length (LogStreamNames input) \<noteq> 1")
  case True
  with assms show ?thesis
    by (auto simp: getLogEvent_def filterStrategy_def available_def)
next
  case False
  with assms(2,3) obtain r where r: "GetLogEventsPages svc (streamInput input startFromHead) = r"
    and ps: "ps = map (map (synthesize (hd (LogStreamNames input)))) (pages r)" and fail: "fail = failure r"
    by (cases "GetLogEventsPages svc (streamInput input startFromHead)") (auto simp: available_def)
  have "getLogEvent client region input startFromHead = streamStrategy svc input startFromHead"
    using assms(1,2) False by (simp add: getLogEvent_def)
  also have "\<dots> = eachPage (filterCallback (Limit input)) fail ps []"
    unfolding streamStrategy_def Let_def r ps fail getCallback_filterCallback
    by (rule eachPage_map)
  finally show ?thesis .
qed

lemma getLogEvent_prefix:
  assumes "client region = Inr svc" and "FilterPattern input = Some pat" and "Limit input = Some l"
    and "available svc input startFromHead = Remote ps None"
  shows "\<exists>k\<le>length ps.
      getLogEvent client region input startFromHead = Returned (concat (take k ps))
    \<and> (k < length ps \<longrightarrow> 10000 < length (concat (take k ps)) \<or> l \<le> int (length (concat (take k ps))))
    \<and> (ps \<noteq> [] \<longrightarrow> 0 < k)
    \<and> (\<forall>j. 0 < j \<and> j < k \<longrightarrow> \<not> (10000 < length (concat (take j ps)) \<or> l \<le> int (length (concat (take j ps)))))"
proof -
  have "getLogEvent client region input startFromHead = eachPage (filterCallback (Some l)) None ps []"
    using getLogEvent_eachPage [where client = client and region = region, OF assms(1,2,4)] assms(3) by simp
  moreover note eachPage_accumulate [where fn = "filterCallback (Some l)" and ps = ps and acc = "[]"
      and stop = "\<lambda>n. 10000 < n \<or> l \<le> int n", OF filterCallback_Some]
  ultimately show ?thesis by simp
qed

text \<open>Whatever a callback that appends its page returns is a run of whole pages.\<close>

lemma eachPage_appends:
  assumes "\<And>page lastPage acc s' c. fn page lastPage acc = Some (s', c) \<Longrightarrow> s' = acc @ page"
    and "eachPage fn fail ps acc = Returned s"
  shows "\<exists>k. s = acc @ concat (take k ps)"
  using assms(2)
proof (induction ps arbitrary: acc)
  case Nil
  then show ?case by (simp split: option.splits)
next
  case (Cons p ps)
  from Cons.prems obtain s' c where step: "fn p (ps = [] \<and> fail = None) acc = Some (s', c)"
    by (auto split: option.splits)
  then have s': "s' = acc @ p" by (rule assms(1))
  show ?case
  proof (cases c)
    case True
    with Cons.prems step have "eachPage fn fail ps s' = Returned s" by simp
    from Cons.IH [OF this] obtain k where "s = s' @ concat (take k ps)" ..
    with s' have "s = acc @ concat (take (Suc k) (p # ps))" by simp
    then show ?thesis ..
  next
    case False
    with Cons.prems step s' have "s = acc @ concat (take 1 (p # ps))" by simp
    then show ?thesis ..
  qed
qed

lemma filterCallback_appends:
  "filterCallback limit page lastPage acc = Some (s', c) \<Longrightarrow> s' = acc @ page"
  by (auto simp: filterCallback_def Let_def split: if_splits option.splits)

section \<open>Retrieval: the safety cap and the limit\<close>

text \<open>
  C1, as the code has it. A retrieval whose service holds more than 10,000 records and whose
  limit is above 10,000 returns, without an error, the records up to the end of the first page
  at which the count passes 10,000. The count is therefore above 10,000, never exactly 10,000,
  and the pages before that one hold at most 10,000 records. The hypotheses are that the client
  is obtained, that the filter pattern and the limit are set and that no request of the
  listing fails.
\<close>

theorem getLogEvent_past_cap:
  assumes "client region = Inr svc" and "FilterPattern input = Some pat"
    and "Limit input = Some l" and "10000 < l"
    and "available svc input startFromHead = Remote ps None"
    and "10000 < length (concat ps)"
  shows "\<exists>k. 0 < k \<and> k \<le> length ps
    \<and> getLogEvent client region input startFromHead = Returned (concat (take k ps))
    \<and> 10000 < length (concat (take k ps))
    \<and> length (concat (take (k - 1) ps)) \<le> 10000"
proof -
  from getLogEvent_prefix [where client = client and region = region, OF assms(1,2,3,5)] obtain k where k: "k \<le> length ps"
    "getLogEvent client region input startFromHead = Returned (concat (take k ps))"
    "k < length ps \<longrightarrow> 10000 < length (concat (take k ps)) \<or> l \<le> int (length (concat (take k ps)))"
    "ps \<noteq> [] \<longrightarrow> 0 < k"
    "\<forall>j. 0 < j \<and> j < k \<longrightarrow> \<not> (10000 < length (concat (take j ps)) \<or> l \<le> int (length (concat (take j ps))))"
    by blast
  from assms(6) have "ps \<noteq> []" by auto
  with k(4) have pos: "0 < k" by simp
  have over: "10000 < length (concat (take k ps))"
  proof (cases "k < length ps")
    case True
    with k(3) assms(4) show ?thesis by auto
  next
    case False
    with k(1) assms(6) show ?thesis by simp
  qed
  have under: "length (concat (take (k - 1) ps)) \<le> 10000"
  proof (cases "k - 1")
    case 0
    then show ?thesis by simp
  next
    case (Suc i)
    with k(5) pos have "\<not> 10000 < length (concat (take (k - 1) ps))" by auto
    then show ?thesis by simp
  qed
  from pos k(1,2) over under show ?thesis by blast
qed

text \<open>An instance: two pages of 6,000 matching events and a limit of 20,000.\<close>

theorem getLogEvent_past_cap_witness:
  "\<exists>k. 0 < k \<and> k \<le> length [replicate 6000 errorLine, replicate 6000 errorLine]
    \<and> getLogEvent (filtering (Remote [replicate 6000 errorLine, replicate 6000 errorLine] None))
         ''eu-west-1'' (search ''ERROR'' [] (Some 20000)) False
       = Returned (concat (take k [replicate 6000 errorLine, replicate 6000 errorLine]))
    \<and> 10000 < length (concat (take k [replicate 6000 errorLine, replicate 6000 errorLine]))
    \<and> length (concat (take (k - 1) [replicate 6000 errorLine, replicate 6000 errorLine])) \<le> 10000"
  by (rule getLogEvent_past_cap [where pat = "''ERROR''" and l = 20000
        and svc = "offline\<lparr>FilterLogEventsPages := (\<lambda>_. Remote [replicate 6000 errorLine, replicate 6000 errorLine] None)\<rparr>"])
     (simp_all add: filtering_def search_def available_def)

text \<open>
  C1 as stated fails: with 12,000 records available in two pages of 6,000 and a limit of
  20,000, the retrieval returns 12,000 records, not 10,000.
\<close>

theorem getLogEvent_past_cap_counterexample:
  "map_outcome length
     (getLogEvent (filtering (Remote [replicate 6000 errorLine, replicate 6000 errorLine] None))
        ''eu-west-1'' (search ''ERROR'' [] (Some 20000)) False)
   = Returned 12000"
  by (simp add: getLogEvent_def filtering_def search_def filterStrategy_def filterCallback_def)

text \<open>
  C2, as the code has it. A retrieval with limit 5 whose service holds at least 5 records
  returns the records, in the order of the service, up to the end of the first page at which
  the count reaches 5: at least 5 records, and fewer than 5 in the pages before that one. The
  count is 5 only when a page ends there.
\<close>

theorem getLogEvent_limit_five:
  assumes "client region = Inr svc" and "FilterPattern input = Some pat"
    and "Limit input = Some 5"
    and "available svc input startFromHead = Remote ps None"
    and "5 \<le> length (concat ps)"
  shows "\<exists>k. 0 < k \<and> k \<le> length ps
    \<and> getLogEvent client region input startFromHead = Returned (concat (take k ps))
    \<and> 5 \<le> length (concat (take k ps))
    \<and> length (concat (take (k - 1) ps)) < 5"
proof -
  from getLogEvent_prefix [where client = client and region = region, OF assms(1,2,3,4)] obtain k where k: "k \<le> length ps"
    "getLogEvent client region input startFromHead = Returned (concat (take k ps))"
    "k < length ps \<longrightarrow> 10000 < length (concat (take k ps)) \<or> 5 \<le> int (length (concat (take k ps)))"
    "ps \<noteq> [] \<longrightarrow> 0 < k"
    "\<forall>j. 0 < j \<and> j < k \<longrightarrow> \<not> (10000 < length (concat (take j ps)) \<or> 5 \<le> int (length (concat (take j ps))))"
    by blast
  from assms(5) have "ps \<noteq> []" by auto
  with k(4) have pos: "0 < k" by simp
  have reached: "5 \<le> length (concat (take k ps))"
  proof (cases "k < length ps")
    case True
    with k(3) show ?thesis by auto
  next
    case False
    with k(1) assms(5) show ?thesis by simp
  qed
  have before: "length (concat (take (k - 1) ps)) < 5"
  proof (cases "k - 1")
    case 0
    then show ?thesis by simp
  next
    case (Suc i)
    with k(5) pos have "\<not> 5 \<le> int (length (concat (take (k - 1) ps)))" by auto
    then show ?thesis by simp
  qed
  from pos k(1,2) reached before show ?thesis by blast
qed

text \<open>An instance: a direct stream read of three pages of 3 events, with limit 5.\<close>

theorem getLogEvent_limit_five_witness:
  "\<exists>k. 0 < k \<and> k \<le> length [replicate 3 rawLine, replicate 3 rawLine, replicate 3 rawLine]
    \<and> getLogEvent (streaming (Remote [replicate 3 rawLine, replicate 3 rawLine, replicate 3 rawLine] None))
         ''eu-west-1'' (search '''' [Some ''web-1''] (Some 5)) True
       = Returned (concat (take k (map (map (synthesize (Some ''web-1'')))
           [replicate 3 rawLine, replicate 3 rawLine, replicate 3 rawLine])))
    \<and> 5 \<le> length (concat (take k (map (map (synthesize (Some ''web-1'')))
           [replicate 3 rawLine, replicate 3 rawLine, replicate 3 rawLine])))
    \<and> length (concat (take (k - 1) (map (map (synthesize (Some ''web-1'')))
           [replicate 3 rawLine, replicate 3 rawLine, replicate 3 rawLine]))) < 5"
  using getLogEvent_limit_five [where pat = "''''" and client = "streaming (Remote [replicate 3 rawLine, replicate 3 rawLine, replicate 3 rawLine] None)"
        and region = "''eu-west-1''" and input = "search '''' [Some ''web-1''] (Some 5)" and startFromHead = True
        and ps = "map (map (synthesize (Some ''web-1''))) [replicate 3 rawLine, replicate 3 rawLine, replicate 3 rawLine]"
        and svc = "offline\<lparr>GetLogEventsPages := (\<lambda>_. Remote [replicate 3 rawLine, replicate 3 rawLine, replicate 3 rawLine] None)\<rparr>"]
  by (simp add: streaming_def search_def available_def)

text \<open>
  C2 as stated fails: with limit 5 and 6 records available in two pages of 3, below the cap,
  the retrieval returns 6 records, not 5.
\<close>

theorem getLogEvent_limit_five_counterexample:
  "map_outcome length
     (getLogEvent (filtering (Remote [replicate 3 errorLine, replicate 3 errorLine] None))
        ''eu-west-1'' (search ''ERROR'' [] (Some 5)) False)
   = Returned 6"
  by (simp add: getLogEvent_def filtering_def search_def filterStrategy_def filterCallback_def)

section \<open>Retrieval: the choice of the strategy\<close>

text \<open>
  C7. With an empty filter pattern and exactly one stream name, the retrieval is the
  single-stream strategy: what it returns are events of the direct stream read, in order, each
  made a record by attaching the stream name of the target, so every record carries that name.
  In every other case (a filter pattern that is not empty, or a number of stream names other
  than one) the retrieval is the filter strategy, and what it returns are the events of the
  filter call as they are.
\<close>

theorem getLogEvent_strategy:
  assumes "client region = Inr svc" and "FilterPattern input = Some pat"
  shows "(if pat = '''' \<and> length (LogStreamNames input) = 1
          then getLogEvent client region input startFromHead = streamStrategy svc input startFromHead
             \<and> (\<forall>events. getLogEvent client region input startFromHead = Returned events \<longrightarrow>
                  (\<exists>k. events = map (synthesize (hd (LogStreamNames input)))
                          (concat (take k (pages (GetLogEventsPages svc (streamInput input startFromHead))))))
                \<and> (\<forall>e \<in> set events. FilteredLogEvent.LogStreamName e = hd (LogStreamNames input)))
          else getLogEvent client region input startFromHead = filterStrategy svc input
             \<and> (\<forall>events. getLogEvent client region input startFromHead = Returned events \<longrightarrow>
                  (\<exists>k. events = concat (take k (pages (FilterLogEventsPages svc input))))))"
proof (cases "pat = '''' \<and> length (LogStreamNames input) = 1")
  case True
  let ?name = "hd (LogStreamNames input)"
  let ?r = "GetLogEventsPages svc (streamInput input startFromHead)"
  have strategy: "getLogEvent client region input startFromHead = streamStrategy svc input startFromHead"
    using assms True by (simp add: getLogEvent_def)
  have shape: "\<exists>k. events = map (synthesize ?name) (concat (take k (pages ?r)))"
    if "getLogEvent client region input startFromHead = Returned events" for events
  proof -
    have "streamStrategy svc input startFromHead
        = eachPage (filterCallback (Limit input)) (failure ?r) (map (map (synthesize ?name)) (pages ?r)) []"
      unfolding streamStrategy_def Let_def getCallback_filterCallback by (rule eachPage_map)
    with that strategy
    have "eachPage (filterCallback (Limit input)) (failure ?r) (map (map (synthesize ?name)) (pages ?r)) [] = Returned events"
      by simp
    with filterCallback_appends
    have "\<exists>k. events = [] @ concat (take k (map (map (synthesize ?name)) (pages ?r)))"
      by (rule eachPage_appends)
    then show ?thesis
      by (simp add: take_map map_concat)
  qed
  have named: "\<forall>e \<in> set events. FilteredLogEvent.LogStreamName e = ?name"
    if "getLogEvent client region input startFromHead = Returned events" for events
    using shape [OF that] by (auto simp: synthesize_def)
  from True strategy shape named show ?thesis by simp
next
  case False
  let ?r = "FilterLogEventsPages svc input"
  have strategy: "getLogEvent client region input startFromHead = filterStrategy svc input"
    using assms False by (auto simp: getLogEvent_def)
  have shape: "\<exists>k. events = concat (take k (pages ?r))"
    if "getLogEvent client region input startFromHead = Returned events" for events
  proof -
    from that strategy
    have "eachPage (filterCallback (Limit input)) (failure ?r) (pages ?r) [] = Returned events"
      by (simp add: filterStrategy_def Let_def)
    with filterCallback_appends have "\<exists>k. events = [] @ concat (take k (pages ?r))"
      by (rule eachPage_appends)
    then show ?thesis by simp
  qed
  from False strategy shape show ?thesis by auto
qed

text \<open>An instance: one stream and no pattern, then two streams and no pattern.\<close>

theorem getLogEvent_strategy_witness:
  "getLogEvent (streaming (Remote [[rawLine, rawLine]] None)) ''eu-west-1''
       (search '''' [Some ''web-1''] (Some 10)) True
     = streamStrategy (offline\<lparr>GetLogEventsPages := (\<lambda>_. Remote [[rawLine, rawLine]] None)\<rparr>)
         (search '''' [Some ''web-1''] (Some 10)) True
   \<and> getLogEvent (streaming (Remote [[rawLine, rawLine]] None)) ''eu-west-1''
       (search '''' [Some ''web-1''] (Some 10)) True
     = Returned [synthesize (Some ''web-1'') rawLine, synthesize (Some ''web-1'') rawLine]
   \<and> FilteredLogEvent.LogStreamName (synthesize (Some ''web-1'') rawLine) = Some ''web-1''
   \<and> getLogEvent (streaming (Remote [[rawLine, rawLine]] None)) ''eu-west-1''
       (search '''' [Some ''web-1'', Some ''web-2''] (Some 10)) True
     = filterStrategy (offline\<lparr>GetLogEventsPages := (\<lambda>_. Remote [[rawLine, rawLine]] None)\<rparr>)
         (search '''' [Some ''web-1'', Some ''web-2''] (Some 10))"
  using getLogEvent_strategy [where client = "streaming (Remote [[rawLine, rawLine]] None)"
      and region = "''eu-west-1''" and input = "search '''' [Some ''web-1''] (Some 10)" and pat = "''''"
      and startFromHead = True
      and svc = "offline\<lparr>GetLogEventsPages := (\<lambda>_. Remote [[rawLine, rawLine]] None)\<rparr>"]
    getLogEvent_strategy [where client = "streaming (Remote [[rawLine, rawLine]] None)"
      and region = "''eu-west-1''" and input = "search '''' [Some ''web-1'', Some ''web-2''] (Some 10)" and pat = "''''"
      and startFromHead = True
      and svc = "offline\<lparr>GetLogEventsPages := (\<lambda>_. Remote [[rawLine, rawLine]] None)\<rparr>"]
  by (simp add: streaming_def search_def streamStrategy_def streamInput_def getCallback_def synthesize_def)

section \<open>Retrieval: nil pointers\<close>

text \<open>
  C9, as the code has it. A retrieval that cannot obtain the client returns that error. Once
  the client is there, \<^verbatim>\<open>FilterPattern\<close> is dereferenced before the strategy is chosen: a nil
  pattern is a panic. \<^verbatim>\<open>Limit\<close> is dereferenced only in the callback, after a page has come
  in and has not taken the count above 10,000: with a nil limit the retrieval panics when the
  first page comes with at most 10,000 records, and returns the error when the first request
  fails.
\<close>

theorem getLogEvent_nil_pointers:
  "(client region = Inl err \<longrightarrow> getLogEvent client region input startFromHead = Failed err)
 \<and> (client region = Inr svc \<and> FilterPattern input = None \<longrightarrow>
      getLogEvent client region input startFromHead = Panics)
 \<and> (client region = Inr svc \<and> FilterPattern input = Some pat \<and> Limit input = None
      \<and> available svc input startFromHead = Remote (page # rest) fail \<and> length page \<le> 10000 \<longrightarrow>
      getLogEvent client region input startFromHead = Panics)
 \<and> (client region = Inr svc \<and> FilterPattern input = Some pat \<and> Limit input = None
      \<and> available svc input startFromHead = Remote [] (Some err) \<longrightarrow>
      getLogEvent client region input startFromHead = Failed err)"
proof (intro conjI impI)
  assume "client region = Inl err"
  then show "getLogEvent client region input startFromHead = Failed err"
    by (simp add: getLogEvent_def)
next
  assume "client region = Inr svc \<and> FilterPattern input = None"
  then show "getLogEvent client region input startFromHead = Panics"
    by (simp add: getLogEvent_def)
next
  assume a: "client region = Inr svc \<and> FilterPattern input = Some pat \<and> Limit input = None
      \<and> available svc input startFromHead = Remote (page # rest) fail \<and> length page \<le> 10000"
  then have "getLogEvent client region input startFromHead
      = eachPage (filterCallback (Limit input)) fail (page # rest) []"
    by (intro getLogEvent_eachPage [where svc = svc and pat = pat]) simp_all
  with a show "getLogEvent client region input startFromHead = Panics"
    by (simp add: filterCallback_def)
next
  assume a: "client region = Inr svc \<and> FilterPattern input = Some pat \<and> Limit input = None
      \<and> available svc input startFromHead = Remote [] (Some err)"
  then have "getLogEvent client region input startFromHead
      = eachPage (filterCallback (Limit input)) (Some err) [] []"
    by (intro getLogEvent_eachPage [where svc = svc and pat = pat]) simp_all
  then show "getLogEvent client region input startFromHead = Failed err"
    by simp
qed

text \<open>
  Instances: no client; a client and no filter pattern; no limit and a first page of one event;
  no limit and a first request that fails.
\<close>

theorem getLogEvent_nil_pointers_witness:
  "getLogEvent (\<lambda>_. Inl ''no credentials'') ''eu-west-1'' (search ''ERROR'' [] None) False
     = Failed ''no credentials''
 \<and> getLogEvent (filtering (Remote [[errorLine]] None)) ''eu-west-1''
       ((search ''ERROR'' [] (Some 10))\<lparr>FilterPattern := None\<rparr>) False
     = Panics
 \<and> getLogEvent (filtering (Remote [[errorLine]] None)) ''eu-west-1'' (search ''ERROR'' [] None) False
     = Panics
 \<and> getLogEvent (filtering (Remote [] (Some ''ThrottlingException''))) ''eu-west-1''
       (search ''ERROR'' [] None) False
     = Failed ''ThrottlingException''"
  using getLogEvent_nil_pointers [where client = "\<lambda>_. Inl ''no credentials''" and region = "''eu-west-1''"
      and err = "''no credentials''" and input = "search ''ERROR'' [] None" and startFromHead = False]
    getLogEvent_nil_pointers [where client = "filtering (Remote [[errorLine]] None)" and region = "''eu-west-1''"
      and svc = "offline\<lparr>FilterLogEventsPages := (\<lambda>_. Remote [[errorLine]] None)\<rparr>"
      and input = "(search ''ERROR'' [] (Some 10))\<lparr>FilterPattern := None\<rparr>" and startFromHead = False]
    getLogEvent_nil_pointers [where client = "filtering (Remote [[errorLine]] None)" and region = "''eu-west-1''"
      and svc = "offline\<lparr>FilterLogEventsPages := (\<lambda>_. Remote [[errorLine]] None)\<rparr>"
      and input = "search ''ERROR'' [] None" and startFromHead = False and pat = "''ERROR''"
      and page = "[errorLine]" and rest = "[]" and fail = None]
    getLogEvent_nil_pointers [where client = "filtering (Remote [] (Some ''ThrottlingException''))"
      and region = "''eu-west-1''"
      and svc = "offline\<lparr>FilterLogEventsPages := (\<lambda>_. Remote [] (Some ''ThrottlingException''))\<rparr>"
      and input = "search ''ERROR'' [] None" and startFromHead = False and pat = "''ERROR''"
      and err = "''ThrottlingException''"]
  by (simp add: filtering_def search_def available_def)

text \<open>
  C9 as stated fails: a target without a limit, whose first request fails, gets the error of
  the service as an error, not a panic.
\<close>

theorem getLogEvent_nil_pointers_counterexample:
  "getLogEvent (filtering (Remote [] (Some ''ResourceNotFoundException''))) ''eu-west-1''
     (search ''ERROR'' [] None) False
   = Failed ''ResourceNotFoundException''"
  by (simp add: getLogEvent_def filtering_def search_def filterStrategy_def)

section \<open>Asynchronous queries: the submission\<close>

text \<open>
  C4, as the code has it. For a target with an empty query id, when the time range and the
  target decode, the client is obtained and the start call succeeds, the response holds
  exactly one result: it carries the target's \<^verbatim>\<open>RefId\<close>, its metadata is the map with the one
  entry \<^verbatim>\<open>QueryId\<close>, the id the service assigned, and it has no error, no table and no series.
  The metadata holds no status.
\<close>

theorem handleInsightsQuery_start:
  assumes "parseInt env (FromRaw (TimeRange tsdbReq)) = Inr fromRaw"
    and "parseInt env (ToRaw (TimeRange tsdbReq)) = Inr toRaw"
    and "jsonUnmarshal env (ModelJson query) = Inr target"
    and "Target.QueryId target = ''''"
    and "getClient env (Region target) = Inr svc"
    and "StartQuery svc ((InputInsightsStartQuery target)\<lparr>StartTime := Some fromRaw, EndTime := Some toRaw\<rparr>)
           = Inr queryId"
  shows "handleInsightsQuery env tsdbReq query =
           Returned \<lparr>DatasourceResponse.Results =
             [\<lparr>Error = '''', QueryResult.RefId = Target.RefId target,
               MetaJson = MapMeta [(''QueryId'', queryId)], Series = [], Tables = []\<rparr>]\<rparr>"
  using assms
  by (simp add: handleInsightsQuery_def orFail_def metaResponse_def zeroResult_def Let_def)

text \<open>An instance: the service assigns the id \<^verbatim>\<open>q-42\<close>.\<close>

theorem handleInsightsQuery_start_witness:
  "handleInsightsQuery
     (host (\<lambda>_. Inr (offline\<lparr>StartQuery := (\<lambda>_. Inr ''q-42'')\<rparr>))
        [(''{A}'', sampleTarget ''A'' ''table'' '''' '''' True (search '''' [] None))] [] (\<lambda>n keys. keys))
     \<lparr>TimeRange = hour, Queries = [\<lparr>ModelJson = ''{A}''\<rparr>]\<rparr> \<lparr>ModelJson = ''{A}''\<rparr>
   = Returned \<lparr>DatasourceResponse.Results =
       [\<lparr>Error = '''', QueryResult.RefId = ''A'',
         MetaJson = MapMeta [(''QueryId'', ''q-42'')], Series = [], Tables = []\<rparr>]\<rparr>"
  using handleInsightsQuery_start [where
      env = "host (\<lambda>_. Inr (offline\<lparr>StartQuery := (\<lambda>_. Inr ''q-42'')\<rparr>))
        [(''{A}'', sampleTarget ''A'' ''table'' '''' '''' True (search '''' [] None))] [] (\<lambda>n keys. keys)"
      and tsdbReq = "\<lparr>TimeRange = hour, Queries = [\<lparr>ModelJson = ''{A}''\<rparr>]\<rparr>"
      and query = "\<lparr>ModelJson = ''{A}''\<rparr>"
      and target = "sampleTarget ''A'' ''table'' '''' '''' True (search '''' [] None)"
      and svc = "offline\<lparr>StartQuery := (\<lambda>_. Inr ''q-42'')\<rparr>" and queryId = "''q-42''"
      and fromRaw = 1577836800000 and toRaw = 1577840400000]
  by (simp add: host_def parsing_def hour_def sampleTarget_def)

text \<open>
  C4 as stated fails: the metadata of the result of a submission is the query id alone; it
  has no entry \<^verbatim>\<open>Status\<close>, so no status \<^verbatim>\<open>Started\<close>.
\<close>

theorem handleInsightsQuery_start_counterexample:
  "map_outcome (\<lambda>response. map MetaJson (DatasourceResponse.Results response))
     (handleInsightsQuery
        (host (\<lambda>_. Inr (offline\<lparr>StartQuery := (\<lambda>_. Inr ''q-42'')\<rparr>))
           [(''{A}'', sampleTarget ''A'' ''table'' '''' '''' True (search '''' [] None))] [] (\<lambda>n keys. keys))
        \<lparr>TimeRange = hour, Queries = [\<lparr>ModelJson = ''{A}''\<rparr>]\<rparr> \<lparr>ModelJson = ''{A}''\<rparr>)
   = Returned [MapMeta [(''QueryId'', ''q-42'')]]
 \<and> map_of [(''QueryId'', ''q-42'')] ''Status'' = None"
  by (simp add: handleInsightsQuery_def orFail_def metaResponse_def zeroResult_def Let_def
      host_def parsing_def hour_def sampleTarget_def)

section \<open>Plain retrieval: the output format\<close>

text \<open>
  The loop over the targets stops at a target of format \<^verbatim>\<open>timeserie\<close> whose retrieval has
  returned, when the targets before it have been retrieved and made tables.
\<close>

lemma retrieveTargets_earlier:
  assumes "list_all (\<lambda>t. \<exists>resp. getLogEvent (getClient env) (Region t) (Input t) (Target.StartFromHead t) = Returned resp
              \<and> (Format t = ''table'' \<longrightarrow> list_all (\<lambda>e. FilteredLogEvent.LogStreamName e \<noteq> None) resp)) earlier"
    and "Format target = ''timeserie''"
    and "getLogEvent (getClient env) (Region target) (Input target) (Target.StartFromHead target) = Returned resp"
  shows "retrieveTargets env (earlier @ target # later) results = Failed ''not supported''"
  using assms(1)
proof (induction earlier arbitrary: results)
  case Nil
  with assms(2,3) show ?case by simp
next
  case (Cons t ts)
  from Cons.prems obtain r where r: "getLogEvent (getClient env) (Region t) (Input t) (Target.StartFromHead t) = Returned r"
    and names: "Format t = ''table'' \<longrightarrow> list_all (\<lambda>e. FilteredLogEvent.LogStreamName e \<noteq> None) r"
    and rest: "list_all (\<lambda>t. \<exists>resp. getLogEvent (getClient env) (Region t) (Input t) (Target.StartFromHead t) = Returned resp
              \<and> (Format t = ''table'' \<longrightarrow> list_all (\<lambda>e. FilteredLogEvent.LogStreamName e \<noteq> None) resp)) ts"
    by auto
  have rows: "\<exists>rows'. eventRows format es rows = Some rows'"
    if "list_all (\<lambda>e. FilteredLogEvent.LogStreamName e \<noteq> None) es" for format es rows
    using that by (induction es arbitrary: rows) (auto simp: eventRow_def Let_def)
  show ?case
  proof (cases "Format t = ''table''")
    case True
    with names rows [of r "timeFormat env" "[]"] obtain rows' where "eventRows (timeFormat env) r [] = Some rows'"
      by blast
    with True r Cons.IH [OF rest] show ?thesis
      by (simp add: parseTableResponse_def)
  next
    case False
    with r Cons.IH [OF rest] show ?thesis by simp
  qed
qed

text \<open>Every result the loop adds is one table, with no error, metadata or series.\<close>

lemma retrieveTargets_tables:
  assumes "retrieveTargets env targets results = Returned results'"
    and "list_all (\<lambda>r. Error r = '''' \<and> MetaJson r = NoMeta \<and> Series r = [] \<and> length (Tables r) = 1) results"
  shows "list_all (\<lambda>r. Error r = '''' \<and> MetaJson r = NoMeta \<and> Series r = [] \<and> length (Tables r) = 1) results'"
  using assms
proof (induction targets arbitrary: results)
  case Nil
  then show ?case by simp
next
  case (Cons t ts)
  from Cons.prems(1) obtain resp where resp: "getLogEvent (getClient env) (Region t) (Input t) (Target.StartFromHead t) = Returned resp"
    by (auto split: outcome.splits)
  with Cons.prems(1) have nots: "Format t \<noteq> ''timeserie''"
    by (auto split: if_splits)
  show ?case
  proof (cases "Format t = ''table''")
    case True
    with Cons.prems(1) resp obtain r where r: "parseTableResponse (timeFormat env) resp (Target.RefId t) = Returned r"
      and run: "retrieveTargets env ts (results @ [r]) = Returned results'"
      by (auto split: outcome.splits)
    from r have "Error r = '''' \<and> MetaJson r = NoMeta \<and> Series r = [] \<and> length (Tables r) = 1"
      by (auto simp: parseTableResponse_def zeroResult_def split: option.splits)
    with Cons.prems(2) have "list_all (\<lambda>r. Error r = '''' \<and> MetaJson r = NoMeta \<and> Series r = [] \<and> length (Tables r) = 1) (results @ [r])"
      by simp
    with run show ?thesis by (rule Cons.IH)
  next
    case False
    with Cons.prems(1) resp nots have "retrieveTargets env ts results = Returned results'"
      by simp
    then show ?thesis using Cons.prems(2) by (rule Cons.IH)
  qed
qed

text \<open>
  C10. In the plain retrieval path (the first query is neither a suggestion nor an annotation
  query, and no target asks for the asynchronous mode), take a batch with a target of format
  \<^verbatim>\<open>timeserie\<close>. When the targets before it have been retrieved and the retrieval for this
  target has returned, the call returns a response with exactly one result, whose error is
  \<^verbatim>\<open>not supported\<close> and which has no table, series or metadata: the results of the targets
  before it are gone. And whatever \<^verbatim>\<open>handleQuery\<close> returns holds only results with one table
  each and no series.
\<close>

theorem Query_timeserie_not_supported:
  assumes "Queries tsdbReq = first # others"
    and "newJson env (ModelJson first) = Inr modelJson"
    and "modelJson ''queryType'' \<noteq> ''metricFindQuery''"
    and "modelJson ''queryType'' \<noteq> ''annotationQuery''"
    and "includeInsights (jsonUnmarshal env) (Queries tsdbReq) False = Inr False"
    and "parseInt env (FromRaw (TimeRange tsdbReq)) = Inr fromRaw"
    and "parseInt env (ToRaw (TimeRange tsdbReq)) = Inr toRaw"
    and "decodeTargets (jsonUnmarshal env) fromRaw toRaw (Queries tsdbReq) [] = Inr (earlier @ target # later)"
    and "Format target = ''timeserie''"
    and "list_all (\<lambda>t. \<exists>resp. getLogEvent (getClient env) (Region t) (Input t) (Target.StartFromHead t) = Returned resp
              \<and> (Format t = ''table'' \<longrightarrow> list_all (\<lambda>e. FilteredLogEvent.LogStreamName e \<noteq> None) resp)) earlier"
    and "getLogEvent (getClient env) (Region target) (Input target) (Target.StartFromHead target) = Returned resp"
  shows "Query env tsdbReq =
           Returned \<lparr>DatasourceResponse.Results =
             [\<lparr>Error = ''not supported'', QueryResult.RefId = '''', MetaJson = NoMeta, Series = [], Tables = []\<rparr>]\<rparr>
       \<and> (\<forall>env' tsdbReq' response. handleQuery env' tsdbReq' = Returned response \<longrightarrow>
            list_all (\<lambda>r. Error r = '''' \<and> MetaJson r = NoMeta \<and> Series r = [] \<and> length (Tables r) = 1)
              (DatasourceResponse.Results response))"
    (is "?dispatch \<and> ?tables")
proof
  have "retrieveTargets env (earlier @ target # later) [] = Failed ''not supported''"
    using assms(10,9,11) by (rule retrieveTargets_earlier)
  with assms(6,7,8) have "handleQuery env tsdbReq = Failed ''not supported''"
    by (simp add: handleQuery_def orFail_def)
  with assms(1-5) show ?dispatch
    by (simp add: Query_def orFail_def errorResponse_def zeroResult_def)
next
  show ?tables
  proof (intro allI impI)
    fix env' :: "'b Env" and tsdbReq' and response :: "'b DatasourceResponse"
    assume "handleQuery env' tsdbReq' = Returned response"
    then obtain targets where "retrieveTargets env' targets [] = Returned (DatasourceResponse.Results response)"
      by (auto simp: handleQuery_def orFail_def split: sum.splits outcome.splits)
    then show "list_all (\<lambda>r. Error r = '''' \<and> MetaJson r = NoMeta \<and> Series r = [] \<and> length (Tables r) = 1)
              (DatasourceResponse.Results response)"
      by (rule retrieveTargets_tables) simp
  qed
qed

text \<open>An instance: a table target, then a \<^verbatim>\<open>timeserie\<close> target, with one matching event.\<close>

theorem Query_timeserie_not_supported_witness:
  "Query (host (filtering (Remote [[errorLine]] None))
            [(''{A}'', sampleTarget ''A'' ''table'' '''' '''' False (search ''ERROR'' [] (Some 10))),
             (''{B}'', sampleTarget ''B'' ''timeserie'' '''' '''' False (search ''ERROR'' [] (Some 10)))]
            [] (\<lambda>n keys. keys))
     \<lparr>TimeRange = hour, Queries = [\<lparr>ModelJson = ''{A}''\<rparr>, \<lparr>ModelJson = ''{B}''\<rparr>]\<rparr>
   = Returned \<lparr>DatasourceResponse.Results =
       [\<lparr>Error = ''not supported'', QueryResult.RefId = '''', MetaJson = NoMeta, Series = [], Tables = []\<rparr>]\<rparr>"
proof -
  let ?input = "(search ''ERROR'' [] (Some 10))\<lparr>StartTime := Some 1577836800000, EndTime := Some 1577840400000\<rparr>"
  let ?env = "host (filtering (Remote [[errorLine]] None))
            [(''{A}'', sampleTarget ''A'' ''table'' '''' '''' False (search ''ERROR'' [] (Some 10))),
             (''{B}'', sampleTarget ''B'' ''timeserie'' '''' '''' False (search ''ERROR'' [] (Some 10)))]
            [] (\<lambda>n keys. keys) :: int Env"
  have run: "getLogEvent (filtering (Remote [[errorLine]] None)) ''eu-west-1'' ?input False = Returned [errorLine]"
    by (simp add: getLogEvent_def filtering_def search_def filterStrategy_def filterCallback_def)
  have named: "FilteredLogEvent.LogStreamName errorLine = Some ''web-1''"
    by (simp add: errorLine_def)
  have "Query ?env \<lparr>TimeRange = hour, Queries = [\<lparr>ModelJson = ''{A}''\<rparr>, \<lparr>ModelJson = ''{B}''\<rparr>]\<rparr> =
           Returned \<lparr>DatasourceResponse.Results =
             [\<lparr>Error = ''not supported'', QueryResult.RefId = '''', MetaJson = NoMeta, Series = [], Tables = []\<rparr>]\<rparr>
       \<and> (\<forall>env' tsdbReq' (response :: int DatasourceResponse). handleQuery env' tsdbReq' = Returned response \<longrightarrow>
            list_all (\<lambda>r. Error r = '''' \<and> MetaJson r = NoMeta \<and> Series r = [] \<and> length (Tables r) = 1)
              (DatasourceResponse.Results response))"
    by (rule Query_timeserie_not_supported [where
          first = "\<lparr>ModelJson = ''{A}''\<rparr>" and others = "[\<lparr>ModelJson = ''{B}''\<rparr>]"
          and modelJson = "document ''query'' []"
          and fromRaw = 1577836800000 and toRaw = 1577840400000
          and earlier = "[(sampleTarget ''A'' ''table'' '''' '''' False (search ''ERROR'' [] (Some 10)))\<lparr>Input := ?input\<rparr>]"
          and target = "(sampleTarget ''B'' ''timeserie'' '''' '''' False (search ''ERROR'' [] (Some 10)))\<lparr>Input := ?input\<rparr>"
          and later = "[]" and resp = "[errorLine]"])
       (simp_all add: host_def parsing_def document_def hour_def sampleTarget_def run named)
  then show ?thesis by simp
qed

section \<open>Suggestions\<close>

lemma suggestCallback_Some:
  "suggestCallback page lastPage listed =
     Some (listed @ page, \<not> 100 < length listed + length page \<and> \<not> lastPage)"
  by (simp add: suggestCallback_def Let_def)

text \<open>The sort keeps the elements and orders them by the key, largest first.\<close>

lemma mset_insertSorted: "mset (insertSorted before x ys) = add_mset x (mset ys)"
  by (induction ys) simp_all

lemma mset_sortSlice: "mset (sortSlice before xs) = mset xs"
  by (induction xs) (simp_all add: sortSlice_def mset_insertSorted)

lemma length_sortSlice: "length (sortSlice before xs) = length xs"
  using mset_sortSlice [of before xs] by (metis size_mset)

lemma sorted_insertSorted:
  fixes key :: "'a \<Rightarrow> int"
  assumes "sorted_wrt (\<lambda>a b. key a \<ge> key b) ys"
  shows "sorted_wrt (\<lambda>a b. key a \<ge> key b) (insertSorted (\<lambda>a b. key a > key b) x ys)"
  using assms
proof (induction ys)
  case Nil
  then show ?case by simp
next
  case (Cons y ys)
  have "set (insertSorted (\<lambda>a b. key a > key b) x ys) = insert x (set ys)"
    using mset_insertSorted [of "\<lambda>a b. key a > key b" x ys] by (metis set_mset_add_mset_insert set_mset_mset)
  with Cons show ?case by auto
qed

lemma sorted_sortSlice:
  fixes key :: "'a \<Rightarrow> int"
  shows "sorted_wrt (\<lambda>a b. key a \<ge> key b) (sortSlice (\<lambda>a b. key a > key b) xs)"
  by (induction xs) (simp_all add: sortSlice_def sorted_insertSorted)

lemma suggest_pages:
  "\<exists>k\<le>length ps. eachPage suggestCallback None ps [] = Returned (concat (take k ps))
     \<and> (k < length ps \<longrightarrow> 100 < length (concat (take k ps)))
     \<and> length (concat (take (k - 1) ps)) \<le> 100"
proof -
  from eachPage_accumulate [where fn = suggestCallback and stop = "\<lambda>n. 100 < n" and ps = ps and acc = "[]",
      OF suggestCallback_Some]
  obtain k where k: "k \<le> length ps" "eachPage suggestCallback None ps [] = Returned (concat (take k ps))"
    "k < length ps \<longrightarrow> 100 < length (concat (take k ps))"
    "\<forall>j. 0 < j \<and> j < k \<longrightarrow> \<not> 100 < length (concat (take j ps))"
    by auto
  have "length (concat (take (k - 1) ps)) \<le> 100"
  proof (cases "k - 1")
    case 0
    then show ?thesis by simp
  next
    case (Suc i)
    with k(4) have "\<not> 100 < length (concat (take (k - 1) ps))" by auto
    then show ?thesis by simp
  qed
  with k(1,2,3) show ?thesis by blast
qed

text \<open>
  C8, as the code has it. A suggestion query that obtains its client and whose listing meets
  no failing request, for log groups or for log streams, accumulates the pages of the listing
  up to the end of the first page at which the count passes 100 (the pages before that one
  hold at most 100 entries; the count itself is not capped at 100), sorts what it accumulated
  by creation time, newest first, and returns one result named \<^verbatim>\<open>metricFindQuery\<close> with one
  table: the columns \<^verbatim>\<open>text\<close> and \<^verbatim>\<open>value\<close>, and for each entry a row whose two cells are the
  entry's name.
\<close>

theorem metricFindQuery_suggestions:
  assumes "getClient env (parameters ''region'') = Inr svc"
  shows "(parameters ''subtype'' = ''log_group_names''
      \<and> DescribeLogGroupsPages svc
           (if 0 < length (parameters ''logGroupNamePrefix'') then Some (parameters ''logGroupNamePrefix'') else None)
          = Remote ps None \<longrightarrow>
        (\<exists>k listed. k \<le> length ps
           \<and> (k < length ps \<longrightarrow> 100 < length (concat (take k ps)))
           \<and> length (concat (take (k - 1) ps)) \<le> 100
           \<and> mset listed = mset (concat (take k ps))
           \<and> sorted_wrt (\<lambda>a b. LogGroup.CreationTime a \<ge> LogGroup.CreationTime b) listed
           \<and> metricFindQuery env parameters =
               Returned \<lparr>DatasourceResponse.Results =
                 [\<lparr>Error = '''', QueryResult.RefId = ''metricFindQuery'', MetaJson = NoMeta, Series = [],
                   Tables = [\<lparr>Columns = [''text'', ''value''],
                              Rows = map (\<lambda>g. [LogGroup.LogGroupName g, LogGroup.LogGroupName g]) listed\<rparr>]\<rparr>]\<rparr>))
    \<and> (parameters ''subtype'' = ''log_stream_names''
      \<and> DescribeLogStreamsPages svc (Some (parameters ''logGroupName''))
           (if 0 < length (parameters ''logStreamNamePrefix'') then Some (parameters ''logStreamNamePrefix'') else None)
          = Remote qs None \<longrightarrow>
        (\<exists>k listed. k \<le> length qs
           \<and> (k < length qs \<longrightarrow> 100 < length (concat (take k qs)))
           \<and> length (concat (take (k - 1) qs)) \<le> 100
           \<and> mset listed = mset (concat (take k qs))
           \<and> sorted_wrt (\<lambda>a b. LogStream.CreationTime a \<ge> LogStream.CreationTime b) listed
           \<and> metricFindQuery env parameters =
               Returned \<lparr>DatasourceResponse.Results =
                 [\<lparr>Error = '''', QueryResult.RefId = ''metricFindQuery'', MetaJson = NoMeta, Series = [],
                   Tables = [\<lparr>Columns = [''text'', ''value''],
                              Rows = map (\<lambda>g. [LogStream.LogStreamName g, LogStream.LogStreamName g]) listed\<rparr>]\<rparr>]\<rparr>))"
proof (intro conjI impI)
  assume a: "parameters ''subtype'' = ''log_group_names''
      \<and> DescribeLogGroupsPages svc
           (if 0 < length (parameters ''logGroupNamePrefix'') then Some (parameters ''logGroupNamePrefix'') else None)
          = Remote ps None"
  from suggest_pages [of ps] obtain k where k: "k \<le> length ps"
    "eachPage suggestCallback None ps [] = Returned (concat (take k ps))"
    "k < length ps \<longrightarrow> 100 < length (concat (take k ps))"
    "length (concat (take (k - 1) ps)) \<le> 100"
    by blast
  let ?listed = "sortSlice (\<lambda>a b. LogGroup.CreationTime a > LogGroup.CreationTime b) (concat (take k ps))"
  have "metricFindQuery env parameters =
      Returned \<lparr>DatasourceResponse.Results =
        [\<lparr>Error = '''', QueryResult.RefId = ''metricFindQuery'', MetaJson = NoMeta, Series = [],
          Tables = [\<lparr>Columns = [''text'', ''value''],
                     Rows = map (\<lambda>g. [LogGroup.LogGroupName g, LogGroup.LogGroupName g]) ?listed\<rparr>]\<rparr>]\<rparr>"
    using assms a k(2)
    by (simp add: metricFindQuery_def orFail_def logGroupSuggestions_def transformToTable_def
        zeroResult_def Let_def o_def)
  moreover have "mset ?listed = mset (concat (take k ps))"
    by (rule mset_sortSlice)
  moreover have "sorted_wrt (\<lambda>a b. LogGroup.CreationTime a \<ge> LogGroup.CreationTime b) ?listed"
    by (rule sorted_sortSlice)
  ultimately show "\<exists>k listed. k \<le> length ps
           \<and> (k < length ps \<longrightarrow> 100 < length (concat (take k ps)))
           \<and> length (concat (take (k - 1) ps)) \<le> 100
           \<and> mset listed = mset (concat (take k ps))
           \<and> sorted_wrt (\<lambda>a b. LogGroup.CreationTime a \<ge> LogGroup.CreationTime b) listed
           \<and> metricFindQuery env parameters =
               Returned \<lparr>DatasourceResponse.Results =
                 [\<lparr>Error = '''', QueryResult.RefId = ''metricFindQuery'', MetaJson = NoMeta, Series = [],
                   Tables = [\<lparr>Columns = [''text'', ''value''],
                              Rows = map (\<lambda>g. [LogGroup.LogGroupName g, LogGroup.LogGroupName g]) listed\<rparr>]\<rparr>]\<rparr>"
    using k(1,3,4) by blast
next
  assume a: "parameters ''subtype'' = ''log_stream_names''
      \<and> DescribeLogStreamsPages svc (Some (parameters ''logGroupName''))
           (if 0 < length (parameters ''logStreamNamePrefix'') then Some (parameters ''logStreamNamePrefix'') else None)
          = Remote qs None"
  from suggest_pages [of qs] obtain k where k: "k \<le> length qs"
    "eachPage suggestCallback None qs [] = Returned (concat (take k qs))"
    "k < length qs \<longrightarrow> 100 < length (concat (take k qs))"
    "length (concat (take (k - 1) qs)) \<le> 100"
    by blast
  let ?listed = "sortSlice (\<lambda>a b. LogStream.CreationTime a > LogStream.CreationTime b) (concat (take k qs))"
  have "metricFindQuery env parameters =
      Returned \<lparr>DatasourceResponse.Results =
        [\<lparr>Error = '''', QueryResult.RefId = ''metricFindQuery'', MetaJson = NoMeta, Series = [],
          Tables = [\<lparr>Columns = [''text'', ''value''],
                     Rows = map (\<lambda>g. [LogStream.LogStreamName g, LogStream.LogStreamName g]) ?listed\<rparr>]\<rparr>]\<rparr>"
    using assms a k(2)
    by (simp add: metricFindQuery_def orFail_def logStreamSuggestions_def transformToTable_def
        zeroResult_def Let_def o_def)
  moreover have "mset ?listed = mset (concat (take k qs))"
    by (rule mset_sortSlice)
  moreover have "sorted_wrt (\<lambda>a b. LogStream.CreationTime a \<ge> LogStream.CreationTime b) ?listed"
    by (rule sorted_sortSlice)
  ultimately show "\<exists>k listed. k \<le> length qs
           \<and> (k < length qs \<longrightarrow> 100 < length (concat (take k qs)))
           \<and> length (concat (take (k - 1) qs)) \<le> 100
           \<and> mset listed = mset (concat (take k qs))
           \<and> sorted_wrt (\<lambda>a b. LogStream.CreationTime a \<ge> LogStream.CreationTime b) listed
           \<and> metricFindQuery env parameters =
               Returned \<lparr>DatasourceResponse.Results =
                 [\<lparr>Error = '''', QueryResult.RefId = ''metricFindQuery'', MetaJson = NoMeta, Series = [],
                   Tables = [\<lparr>Columns = [''text'', ''value''],
                              Rows = map (\<lambda>g. [LogStream.LogStreamName g, LogStream.LogStreamName g]) listed\<rparr>]\<rparr>]\<rparr>"
    using k(1,3,4) by blast
qed

text \<open>Instances: three log groups in two pages, and two log streams in two pages.\<close>

theorem metricFindQuery_suggestions_witness:
  "(\<exists>k listed. k \<le> length [[logGroup ''api'' 10, logGroup ''web'' 30], [logGroup ''db'' 20]]
      \<and> (k < length [[logGroup ''api'' 10, logGroup ''web'' 30], [logGroup ''db'' 20]] \<longrightarrow>
           100 < length (concat (take k [[logGroup ''api'' 10, logGroup ''web'' 30], [logGroup ''db'' 20]])))
      \<and> length (concat (take (k - 1) [[logGroup ''api'' 10, logGroup ''web'' 30], [logGroup ''db'' 20]])) \<le> 100
      \<and> mset listed = mset (concat (take k [[logGroup ''api'' 10, logGroup ''web'' 30], [logGroup ''db'' 20]]))
      \<and> sorted_wrt (\<lambda>a b. LogGroup.CreationTime a \<ge> LogGroup.CreationTime b) listed
      \<and> metricFindQuery
           (host (listing (Remote [[logGroup ''api'' 10, logGroup ''web'' 30], [logGroup ''db'' 20]] None)
                    (Remote [] None)) [] [] (\<lambda>n keys. keys))
           (document ''metricFindQuery'' [(''region'', ''eu-west-1''), (''subtype'', ''log_group_names'')])
         = Returned \<lparr>DatasourceResponse.Results =
             [\<lparr>Error = '''', QueryResult.RefId = ''metricFindQuery'', MetaJson = NoMeta, Series = [],
               Tables = [\<lparr>Columns = [''text'', ''value''],
                          Rows = map (\<lambda>g. [LogGroup.LogGroupName g, LogGroup.LogGroupName g]) listed\<rparr>]\<rparr>]\<rparr>)
 \<and> (\<exists>k listed. k \<le> length [[logStream ''web-1'' 5], [logStream ''web-2'' 7]]
      \<and> (k < length [[logStream ''web-1'' 5], [logStream ''web-2'' 7]] \<longrightarrow>
           100 < length (concat (take k [[logStream ''web-1'' 5], [logStream ''web-2'' 7]])))
      \<and> length (concat (take (k - 1) [[logStream ''web-1'' 5], [logStream ''web-2'' 7]])) \<le> 100
      \<and> mset listed = mset (concat (take k [[logStream ''web-1'' 5], [logStream ''web-2'' 7]]))
      \<and> sorted_wrt (\<lambda>a b. LogStream.CreationTime a \<ge> LogStream.CreationTime b) listed
      \<and> metricFindQuery
           (host (listing (Remote [] None) (Remote [[logStream ''web-1'' 5], [logStream ''web-2'' 7]] None))
              [] [] (\<lambda>n keys. keys))
           (document ''metricFindQuery''
              [(''region'', ''eu-west-1''), (''subtype'', ''log_stream_names''), (''logGroupName'', ''app'')])
         = Returned \<lparr>DatasourceResponse.Results =
             [\<lparr>Error = '''', QueryResult.RefId = ''metricFindQuery'', MetaJson = NoMeta, Series = [],
               Tables = [\<lparr>Columns = [''text'', ''value''],
                          Rows = map (\<lambda>g. [LogStream.LogStreamName g, LogStream.LogStreamName g]) listed\<rparr>]\<rparr>]\<rparr>)"
  using metricFindQuery_suggestions [where
      env = "host (listing (Remote [[logGroup ''api'' 10, logGroup ''web'' 30], [logGroup ''db'' 20]] None)
                    (Remote [] None)) [] [] (\<lambda>n keys. keys)"
      and parameters = "document ''metricFindQuery'' [(''region'', ''eu-west-1''), (''subtype'', ''log_group_names'')]"
      and svc = "offline\<lparr>DescribeLogGroupsPages :=
                    (\<lambda>_. Remote [[logGroup ''api'' 10, logGroup ''web'' 30], [logGroup ''db'' 20]] None),
                  DescribeLogStreamsPages := (\<lambda>_ _. Remote [] None)\<rparr>"
      and ps = "[[logGroup ''api'' 10, logGroup ''web'' 30], [logGroup ''db'' 20]]"]
    metricFindQuery_suggestions [where
      env = "host (listing (Remote [] None) (Remote [[logStream ''web-1'' 5], [logStream ''web-2'' 7]] None))
              [] [] (\<lambda>n keys. keys)"
      and parameters = "document ''metricFindQuery''
              [(''region'', ''eu-west-1''), (''subtype'', ''log_stream_names''), (''logGroupName'', ''app'')]"
      and svc = "offline\<lparr>DescribeLogGroupsPages := (\<lambda>_. Remote [] None),
                  DescribeLogStreamsPages := (\<lambda>_ _. Remote [[logStream ''web-1'' 5], [logStream ''web-2'' 7]] None)\<rparr>"
      and qs = "[[logStream ''web-1'' 5], [logStream ''web-2'' 7]]"]
  by (simp add: host_def listing_def document_def)

text \<open>
  C8 as stated fails: with 200 log groups listed in pages of 50, the table has 150 rows, more
  than the cap of 100.
\<close>

theorem metricFindQuery_suggestions_counterexample:
  "map_outcome (\<lambda>response. map (\<lambda>r. map (\<lambda>t. length (Rows t)) (Tables r)) (DatasourceResponse.Results response))
     (metricFindQuery
        (host (listing (Remote [replicate 50 (logGroup ''app'' 10), replicate 50 (logGroup ''app'' 10),
                                replicate 50 (logGroup ''app'' 10), replicate 50 (logGroup ''app'' 10)] None)
                 (Remote [] None)) [] [] (\<lambda>n keys. keys))
        (document ''metricFindQuery'' [(''region'', ''eu-west-1''), (''subtype'', ''log_group_names'')]))
   = Returned [[150]]"
  by (simp add: metricFindQuery_def orFail_def logGroupSuggestions_def transformToTable_def zeroResult_def
      suggestCallback_def host_def listing_def document_def length_sortSlice)

section \<open>Asynchronous queries: time series\<close>

text \<open>
  The loop over the result rows, from any row number and any map of series: the series of a
  name gets the points of the rows with that name, in the order of the rows, and a name that
  is new gets the tags of the first such row.
\<close>

lemma map_of_addPoint:
  "map_of (addPoint name kv p series) name' =
     (if name' = name
      then Some (case map_of series name of
                   None \<Rightarrow> \<lparr>Name = name, Tags = kv, Points = [p]\<rparr>
                 | Some ss \<Rightarrow> ss\<lparr>Points := Points ss @ [p]\<rparr>)
      else map_of series name')"
  by (simp add: addPoint_def map_of_map_entry update_conv' split: option.splits)

lemma distinct_addPoint:
  "distinct (map fst series) \<Longrightarrow> distinct (map fst (addPoint name kv p series))"
  by (simp add: addPoint_def distinct_map_entry distinct_update split: option.splits)

lemma rowsNamed_Cons:
  "rowsNamed env target n (r # rs) name =
     (if rowLegend env target n r = name then [r] else []) @ rowsNamed env target (Suc n) rs name"
  by (simp add: rowsNamed_def)

lemma collectSeries_shape:
  assumes "collectSeries env target n rows acc = Inr series"
  shows "map_of series name =
     (case map_of acc name of
        Some ss \<Rightarrow> Some (ss\<lparr>Points := Points ss @ map (rowPoint env target) (rowsNamed env target n rows name)\<rparr>)
      | None \<Rightarrow>
          (case rowsNamed env target n rows name of
             [] \<Rightarrow> None
           | r # rs \<Rightarrow> Some \<lparr>Name = name, Tags = rowTags env target r,
                              Points = map (rowPoint env target) (r # rs)\<rparr>))"
  using assms
proof (induction rows arbitrary: n acc)
  case Nil
  then show ?case by (simp add: rowsNamed_def split: option.splits)
next
  case (Cons r rs)
  from Cons.prems obtain timestamp "value" kv where
    read: "readRow env target r (0, 0, []) = Inr (timestamp, value, kv)"
    by (auto split: sum.splits)
  let ?p = "\<lparr>Timestamp = timestamp, Value = value\<rparr>"
  let ?name = "formatLegend (rangeOrder env n) kv (LegendFormat target)"
  have tags: "rowTags env target r = kv" and point: "rowPoint env target r = ?p"
    and legend: "rowLegend env target n r = ?name"
    using read by (simp_all add: rowTags_def rowPoint_def rowLegend_def)
  from Cons.prems read have "collectSeries env target (Suc n) rs (addPoint ?name kv ?p acc) = Inr series"
    by (simp add: Let_def)
  from Cons.IH [OF this] show ?case
    by (cases "rowsNamed env target (Suc n) rs name")
       (auto simp: map_of_addPoint rowsNamed_Cons tags point legend split: option.splits)
qed

lemma collectSeries_distinct:
  assumes "collectSeries env target n rows acc = Inr series" and "distinct (map fst acc)"
  shows "distinct (map fst series)"
  using assms
proof (induction rows arbitrary: n acc)
  case Nil
  then show ?case by simp
next
  case (Cons r rs)
  from Cons.prems(1) obtain timestamp "value" kv where
    read: "readRow env target r (0, 0, []) = Inr (timestamp, value, kv)"
    by (auto split: sum.splits)
  with Cons.prems(1) have "collectSeries env target (Suc n) rs
      (addPoint (formatLegend (rangeOrder env n) kv (LegendFormat target)) kv
         \<lparr>Timestamp = timestamp, Value = value\<rparr> acc) = Inr series"
    by (simp add: Let_def)
  moreover from Cons.prems(2)
  have "distinct (map fst (addPoint (formatLegend (rangeOrder env n) kv (LegendFormat target)) kv
         \<lparr>Timestamp = timestamp, Value = value\<rparr> acc))"
    by (rule distinct_addPoint)
  ultimately show ?case by (rule Cons.IH)
qed

text \<open>The timestamp of a row is set by the last column that has the timestamp column's name.\<close>

lemma readRow_keeps_timestamp:
  assumes "\<forall>d \<in> set ds. Field d \<noteq> TimestampColumn target"
    and "readRow env target ds (timestamp, value, kv) = Inr (timestamp', value', kv')"
  shows "timestamp' = timestamp"
  using assms
  by (induction ds arbitrary: "value" kv) (auto simp: Let_def split: if_splits sum.splits)

lemma readRow_timestamp:
  assumes "readRow env target (before @ d # after) state = Inr (timestamp, value, kv)"
    and "Field d = TimestampColumn target"
    and "\<forall>d' \<in> set after. Field d' \<noteq> TimestampColumn target"
    and "timeParse env (ResultField.Value d) = Inr t"
  shows "timestamp = Unix t * 1000"
  using assms(1)
proof (induction before arbitrary: state)
  case Nil
  obtain ts0 v0 kv0 where "state = (ts0, v0, kv0)" by (cases state)
  with Nil assms(2,4) have "readRow env target after (Unix t * 1000, v0, kv0) = Inr (timestamp, value, kv)"
    by (simp add: Let_def)
  with assms(3) show ?case by (rule readRow_keeps_timestamp)
next
  case (Cons b before)
  obtain ts0 v0 kv0 where "state = (ts0, v0, kv0)" by (cases state)
  with Cons.prems obtain state' where "readRow env target (before @ d # after) state' = Inr (timestamp, value, kv)"
    by (auto simp: Let_def split: if_splits sum.splits)
  then show ?case by (rule Cons.IH)
qed

lemma legendReplace_map_of:
  "map_of kv = map_of kv' \<Longrightarrow> legendReplace kv = legendReplace kv'"
  by (intro ext) (simp add: legendReplace_def)

text \<open>
  C3, as the code has it. The rows are grouped by the name that the legend formatter derives,
  not by the tag set: the map of series has one series for each derived name, and the series
  of a name holds the points of exactly the rows with that derived name, in the order of the
  rows, and the tags of the first of them. So two rows with the same derived name are in the
  same series whatever their tags are, and two rows with different derived names are in
  different series even when their tag sets are identical. With a template that is not empty
  the name is a function of the tag set, so there rows with identical tag sets are in the same
  series.
\<close>

theorem collectSeries_groups_by_name:
  assumes "collectSeries env target 0 rows [] = Inr series"
  shows "distinct (map fst series)
    \<and> map_of series name =
        (case rowsNamed env target 0 rows name of
           [] \<Rightarrow> None
         | r # rs \<Rightarrow> Some \<lparr>Name = name, Tags = rowTags env target r,
                            Points = map (rowPoint env target) (r # rs)\<rparr>)
    \<and> (LegendFormat target \<noteq> '''' \<and> map_of (rowTags env target r) = map_of (rowTags env target r') \<longrightarrow>
         rowLegend env target i r = rowLegend env target j r')"
proof (intro conjI impI)
  show "distinct (map fst series)"
    using assms by (rule collectSeries_distinct) simp
  show "map_of series name =
        (case rowsNamed env target 0 rows name of
           [] \<Rightarrow> None
         | r # rs \<Rightarrow> Some \<lparr>Name = name, Tags = rowTags env target r,
                            Points = map (rowPoint env target) (r # rs)\<rparr>)"
    using collectSeries_shape [OF assms, of name] by simp
  assume "LegendFormat target \<noteq> '''' \<and> map_of (rowTags env target r) = map_of (rowTags env target r')"
  then show "rowLegend env target i r = rowLegend env target j r'"
    by (simp add: rowLegend_def formatLegend_def legendReplace_map_of [of "rowTags env target r" "rowTags env target r'"])
qed

text \<open>
  An instance: two rows with the same host on different pods, under the template
  \<^verbatim>\<open>{{ host }}\<close>; and two rows with the same tags in a different column order.
\<close>

theorem collectSeries_groups_by_name_witness:
  "distinct (map fst [(''a'', \<lparr>Name = ''a'', Tags = [(''host'', ''a''), (''pod'', ''x'')],
      Points = [\<lparr>Timestamp = 1577836800000, Value = 3\<rparr>, \<lparr>Timestamp = 1577837100000, Value = (4::int)\<rparr>]\<rparr>)])
 \<and> map_of [(''a'', \<lparr>Name = ''a'', Tags = [(''host'', ''a''), (''pod'', ''x'')],
      Points = [\<lparr>Timestamp = 1577836800000, Value = 3\<rparr>, \<lparr>Timestamp = 1577837100000, Value = (4::int)\<rparr>]\<rparr>)] ''a''
     = (case rowsNamed (host (\<lambda>_. Inl ''no client'') [] [] (\<lambda>n keys. keys))
               (sampleTarget ''A'' ''timeserie'' ''q-42'' ''{{ host }}'' True (search '''' [] None)) 0
               [resultRow ''2020-01-01 00:00:00.000'' ''3'' [(''host'', ''a''), (''pod'', ''x'')],
                resultRow ''2020-01-01 00:05:00.000'' ''4'' [(''host'', ''a''), (''pod'', ''y'')]] ''a'' of
          [] \<Rightarrow> None
        | r # rs \<Rightarrow>
            Some \<lparr>Name = ''a'',
                   Tags = rowTags (host (\<lambda>_. Inl ''no client'') [] [] (\<lambda>n keys. keys))
                     (sampleTarget ''A'' ''timeserie'' ''q-42'' ''{{ host }}'' True (search '''' [] None)) r,
                   Points = map (rowPoint (host (\<lambda>_. Inl ''no client'') [] [] (\<lambda>n keys. keys))
                     (sampleTarget ''A'' ''timeserie'' ''q-42'' ''{{ host }}'' True (search '''' [] None))) (r # rs)\<rparr>)
 \<and> rowLegend (host (\<lambda>_. Inl ''no client'') [] [] (\<lambda>n keys. keys))
       (sampleTarget ''A'' ''timeserie'' ''q-42'' ''{{ host }}'' True (search '''' [] None)) 0
       (resultRow ''2020-01-01 00:00:00.000'' ''3'' [(''host'', ''a''), (''pod'', ''x'')])
     = rowLegend (host (\<lambda>_. Inl ''no client'') [] [] (\<lambda>n keys. keys))
       (sampleTarget ''A'' ''timeserie'' ''q-42'' ''{{ host }}'' True (search '''' [] None)) 1
       (resultRow ''2020-01-01 00:05:00.000'' ''4'' [(''pod'', ''x''), (''host'', ''a'')])"
proof -
  let ?env = "host (\<lambda>_. Inl ''no client'') [] [] (\<lambda>n keys. keys)"
  let ?target = "sampleTarget ''A'' ''timeserie'' ''q-42'' ''{{ host }}'' True (search '''' [] None)"
  let ?r0 = "resultRow ''2020-01-01 00:00:00.000'' ''3'' [(''host'', ''a''), (''pod'', ''x'')]"
  let ?r1 = "resultRow ''2020-01-01 00:05:00.000'' ''4'' [(''host'', ''a''), (''pod'', ''y'')]"
  let ?r2 = "resultRow ''2020-01-01 00:05:00.000'' ''4'' [(''pod'', ''x''), (''host'', ''a'')]"
  have legend: "formatLegend (\<lambda>keys. keys) [(''host'', ''a''), (''pod'', p)] ''{{ host }}'' = ''a''" for p
    by (simp add: formatLegend_def legendReplace_def matchAt_def TrimSpace_def reSpace_def space1_def
        space2_def space3_def)
  have run: "collectSeries ?env ?target 0 [?r0, ?r1] []
      = Inr [(''a'', \<lparr>Name = ''a'', Tags = [(''host'', ''a''), (''pod'', ''x'')],
                Points = [\<lparr>Timestamp = 1577836800000, Value = 3\<rparr>, \<lparr>Timestamp = 1577837100000, Value = 4\<rparr>]\<rparr>)]"
    by (simp add: host_def parsing_def sampleTarget_def resultRow_def addPoint_def legend Let_def)
  have tags: "rowTags ?env ?target ?r0 = [(''host'', ''a''), (''pod'', ''x'')]"
    "rowTags ?env ?target ?r2 = [(''pod'', ''x''), (''host'', ''a'')]"
    by (simp_all add: rowTags_def host_def parsing_def sampleTarget_def resultRow_def)
  have same: "map_of (rowTags ?env ?target ?r0) = map_of (rowTags ?env ?target ?r2)"
    unfolding tags by (intro ext) simp
  have template: "LegendFormat ?target \<noteq> ''''"
    by (simp add: sampleTarget_def)
  from collectSeries_groups_by_name [OF run, where name = "''a''" and r = ?r0 and r' = ?r2 and i = 0 and j = 1]
    same template
  show ?thesis by simp
qed

text \<open>
  C3 as stated fails. With the empty template, two rows with the identical tags host and pod,
  whose maps the runtime visits in different orders, get different names and go to two
  series. And with the template \<^verbatim>\<open>{{ host }}\<close>, two rows with different tag sets get the same
  name and go to one series, with the tags of the first row.
\<close>

theorem collectSeries_groups_by_name_counterexample:
  "map_sum id (map (\<lambda>(name, ss). (Tags ss, map Timestamp (Points ss))))
     (collectSeries (host (\<lambda>_. Inl ''no client'') [] [] (\<lambda>n keys. if n = 0 then keys else rev keys))
        (sampleTarget ''A'' ''timeserie'' ''q-42'' '''' True (search '''' [] None)) 0
        [resultRow ''2020-01-01 00:00:00.000'' ''3'' [(''host'', ''a''), (''pod'', ''x'')],
         resultRow ''2020-01-01 00:05:00.000'' ''4'' [(''host'', ''a''), (''pod'', ''x'')]] [])
   = Inr [([(''host'', ''a''), (''pod'', ''x'')], [1577836800000]),
          ([(''host'', ''a''), (''pod'', ''x'')], [1577837100000])]
 \<and> map_sum id (map (\<lambda>(name, ss). (Tags ss, map Timestamp (Points ss))))
     (collectSeries (host (\<lambda>_. Inl ''no client'') [] [] (\<lambda>n keys. keys))
        (sampleTarget ''A'' ''timeserie'' ''q-42'' ''{{ host }}'' True (search '''' [] None)) 0
        [resultRow ''2020-01-01 00:00:00.000'' ''3'' [(''host'', ''a''), (''pod'', ''x'')],
         resultRow ''2020-01-01 00:05:00.000'' ''4'' [(''host'', ''a''), (''pod'', ''y'')]] [])
   = Inr [([(''host'', ''a''), (''pod'', ''x'')], [1577836800000, 1577837100000])]"
proof -
  have legend: "formatLegend (\<lambda>keys. keys) [(''host'', ''a''), (''pod'', p)] ''{{ host }}'' = ''a''" for p
    by (simp add: formatLegend_def legendReplace_def matchAt_def TrimSpace_def reSpace_def space1_def
        space2_def space3_def)
  have forwards: "formatLegend (\<lambda>keys. keys) [(''host'', ''a''), (''pod'', ''x'')] ''''
      = ''{host='' @ [CHR 0x22] @ ''a'' @ [CHR 0x22] @ '',pod='' @ [CHR 0x22] @ ''x'' @ [CHR 0x22] @ ''}''"
    by (simp add: formatLegend_def rangeMap_def List.map_filter_def)
  have backwards: "formatLegend rev [(''host'', ''a''), (''pod'', ''x'')] ''''
      = ''{pod='' @ [CHR 0x22] @ ''x'' @ [CHR 0x22] @ '',host='' @ [CHR 0x22] @ ''a'' @ [CHR 0x22] @ ''}''"
    by (simp add: formatLegend_def rangeMap_def List.map_filter_def)
  show ?thesis
    by (simp add: host_def parsing_def sampleTarget_def resultRow_def addPoint_def legend forwards backwards
        Let_def)
qed

text \<open>
  C5, as the code has it. For every result row, the value of its (last) column named by
  \<^verbatim>\<open>TimestampColumn\<close> is parsed by \<^verbatim>\<open>time.Parse\<close> with the fixed layout, and the point the row
  adds to the series of its name has as timestamp the whole seconds of the parsed instant
  times 1000: milliseconds in unit, with the fraction of the second dropped.
\<close>

theorem collectSeries_timestamp:
  assumes "collectSeries env target 0 rows [] = Inr series"
    and "i < length rows"
    and "rows ! i = before @ d # after"
    and "Field d = TimestampColumn target"
    and "\<forall>d' \<in> set after. Field d' \<noteq> TimestampColumn target"
    and "timeParse env (ResultField.Value d) = Inr t"
  shows "\<exists>ss. map_of series (rowLegend env target i (rows ! i)) = Some ss
    \<and> rowPoint env target (rows ! i) \<in> set (Points ss)
    \<and> Timestamp (rowPoint env target (rows ! i)) = Unix t * 1000"
proof -
  let ?name = "rowLegend env target i (rows ! i)"
  have "(i, rows ! i) \<in> set (enumerate 0 rows)"
    using assms(2) by (simp add: in_set_enumerate_eq)
  then have member: "rows ! i \<in> set (rowsNamed env target 0 rows ?name)"
    by (force simp: rowsNamed_def)
  then obtain r rs where named: "rowsNamed env target 0 rows ?name = r # rs"
    by (cases "rowsNamed env target 0 rows ?name") auto
  with collectSeries_shape [OF assms(1), of ?name]
  have found: "map_of series ?name
      = Some \<lparr>Name = ?name, Tags = rowTags env target r, Points = map (rowPoint env target) (r # rs)\<rparr>"
    by simp
  from member named have inside: "rowPoint env target (rows ! i) \<in> set (map (rowPoint env target) (r # rs))"
    by auto
  have reads: "\<exists>state. readRow env target r (0, 0, []) = Inr state"
    if "collectSeries env target n rs acc = Inr series'" "r \<in> set rs" for n rs acc series' r
    using that by (induction rs arbitrary: n acc) (auto simp: Let_def split: sum.splits)
  from reads [OF assms(1)] assms(2) obtain timestamp "value" kv
    where read: "readRow env target (rows ! i) (0, 0, []) = Inr (timestamp, value, kv)"
    by (metis nth_mem prod_cases3)
  then have "readRow env target (before @ d # after) (0, 0, []) = Inr (timestamp, value, kv)"
    using assms(3) by simp
  then have "timestamp = Unix t * 1000"
    using assms(4,5,6) by (rule readRow_timestamp)
  with read have "Timestamp (rowPoint env target (rows ! i)) = Unix t * 1000"
    by (simp add: rowPoint_def)
  with found inside show ?thesis by simp
qed

text \<open>An instance: one row at half a second past midnight.\<close>

theorem collectSeries_timestamp_witness:
  "\<exists>ss. map_of [(''a'', \<lparr>Name = ''a'', Tags = [(''host'', ''a'')],
                        Points = [\<lparr>Timestamp = 1577836800000, Value = 3\<rparr>]\<rparr>)]
            (rowLegend (host (\<lambda>_. Inl ''no client'') [] [] (\<lambda>n keys. keys))
               (sampleTarget ''A'' ''timeserie'' ''q-42'' ''{{ host }}'' True (search '''' [] None)) 0
               (resultRow ''2020-01-01 00:00:00.500'' ''3'' [(''host'', ''a'')])) = Some ss
     \<and> rowPoint (host (\<lambda>_. Inl ''no client'') [] [] (\<lambda>n keys. keys))
          (sampleTarget ''A'' ''timeserie'' ''q-42'' ''{{ host }}'' True (search '''' [] None))
          (resultRow ''2020-01-01 00:00:00.500'' ''3'' [(''host'', ''a'')]) \<in> set (Points ss)
     \<and> Timestamp (rowPoint (host (\<lambda>_. Inl ''no client'') [] [] (\<lambda>n keys. keys))
          (sampleTarget ''A'' ''timeserie'' ''q-42'' ''{{ host }}'' True (search '''' [] None))
          (resultRow ''2020-01-01 00:00:00.500'' ''3'' [(''host'', ''a'')])) = 1577836800 * 1000"
proof -
  let ?env = "host (\<lambda>_. Inl ''no client'') [] [] (\<lambda>n keys. keys)"
  let ?target = "sampleTarget ''A'' ''timeserie'' ''q-42'' ''{{ host }}'' True (search '''' [] None)"
  let ?row = "resultRow ''2020-01-01 00:00:00.500'' ''3'' [(''host'', ''a'')]"
  have legend: "formatLegend (\<lambda>keys. keys) [(''host'', ''a'')] ''{{ host }}'' = ''a''"
    by (simp add: formatLegend_def legendReplace_def matchAt_def TrimSpace_def reSpace_def space1_def
        space2_def space3_def)
  have run: "collectSeries ?env ?target 0 [?row] []
      = Inr [(''a'', \<lparr>Name = ''a'', Tags = [(''host'', ''a'')],
                      Points = [\<lparr>Timestamp = 1577836800000, Value = 3\<rparr>]\<rparr>)]"
    by (simp add: host_def parsing_def sampleTarget_def resultRow_def addPoint_def legend Let_def)
  show ?thesis
    using collectSeries_timestamp [where env = ?env and target = ?target and rows = "[?row]" and i = 0
        and before = "[]" and d = "\<lparr>Field = ''t'', ResultField.Value = ''2020-01-01 00:00:00.500''\<rparr>"
        and after = "[\<lparr>Field = ''n'', ResultField.Value = ''3''\<rparr>, \<lparr>Field = ''host'', ResultField.Value = ''a''\<rparr>]"
        and t = "\<lparr>Unix = 1577836800, Nanosecond = 500000000\<rparr>", OF run]
    by (simp add: resultRow_def host_def parsing_def sampleTarget_def rowLegend_def rowTags_def
        rowPoint_def legend)
qed

text \<open>
  C5 as stated fails: a row whose timestamp column reads \<^verbatim>\<open>2020-01-01 00:00:00.500\<close>, the
  instant 1577836800500 in milliseconds, adds a point with timestamp 1577836800000.
\<close>

theorem collectSeries_timestamp_counterexample:
  "map_sum id (map (\<lambda>(name, ss). map Timestamp (Points ss)))
     (collectSeries (host (\<lambda>_. Inl ''no client'') [] [] (\<lambda>n keys. keys))
        (sampleTarget ''A'' ''timeserie'' ''q-42'' ''{{ host }}'' True (search '''' [] None)) 0
        [resultRow ''2020-01-01 00:00:00.500'' ''3'' [(''host'', ''a'')]] [])
   = Inr [[1577836800000]]
 \<and> timeParse (host (\<lambda>_. Inl ''no client'') [] [] (\<lambda>n keys. keys)) ''2020-01-01 00:00:00.500''
     = Inr \<lparr>Unix = 1577836800, Nanosecond = 500000000\<rparr>
 \<and> UnixMilli \<lparr>Unix = 1577836800, Nanosecond = 500000000\<rparr> = 1577836800500"
  by (simp add: host_def parsing_def sampleTarget_def resultRow_def addPoint_def UnixMilli_def Let_def)

section \<open>The legend formatter\<close>

text \<open>The search passes over plain text: no match starts in it.\<close>

lemma matchAt_other:
  "c \<noteq> CHR ''{'' \<Longrightarrow> matchAt (c # s) = None"
  "d \<noteq> CHR ''{'' \<Longrightarrow> matchAt (c # d # s) = None"
  by (simp_all add: matchAt_def)

lemma replaceAllFunc_plainText:
  "plainText t \<Longrightarrow> replaceAllFunc f (t @ rest) = t @ replaceAllFunc f rest"
  by (induction t rule: plainText.induct) (auto simp: matchAt_other)

text \<open>
  At a placeholder the pattern matches the placeholder and nothing more: the lazy group stops
  at the end of the name, since no \<^verbatim>\<open>}}\<close> can be read earlier.
\<close>

lemma reSpace_space1: "reSpace c \<Longrightarrow> space1 c"
  by (auto simp: reSpace_def space1_def)

lemma closeAfter_None:
  "(\<And>j. j \<le> k \<Longrightarrow> take 2 (drop j v) \<noteq> ''}}'') \<Longrightarrow> closeAfter k v = None"
  by (induction k) simp_all

lemma closeAfter_here:
  "list_all reSpace b \<Longrightarrow> closeAfter (length (takeWhile reSpace (b @ ''}}'' @ rest))) (b @ ''}}'' @ rest) = Some rest"
proof -
  assume b: "list_all reSpace b"
  then have "takeWhile reSpace (b @ ''}}'' @ rest) = b"
    by (induction b) (simp_all add: reSpace_def)
  then show ?thesis
    by (cases "length b") simp_all
qed

lemma takeWhile_before_last:
  assumes "m \<noteq> []" and "\<not> P (last m)"
  shows "length (takeWhile P (m @ w)) < length m"
proof -
  from assms have bad: "last m \<in> set m" "\<not> P (last m)" by simp_all
  then have "takeWhile P (m @ w) = takeWhile P m"
    by (rule takeWhile_append1)
  moreover from bad have "takeWhile P m \<noteq> m"
    by (auto simp: takeWhile_eq_all_conv)
  moreover have "length (takeWhile P m) \<le> length m"
    by (rule length_takeWhile_le)
  ultimately show ?thesis
    by (metis le_neq_implies_less takeWhile_eq_take take_all_iff)
qed

lemma nameThenClose_name:
  assumes "m \<noteq> []" and "CHR ''}'' \<notin> set m" and "CHR 0x0A \<notin> set m" and "\<not> reSpace (last m)"
    and "list_all reSpace b"
  shows "nameThenClose (m @ b @ ''}}'' @ rest) = Some rest"
  using assms(1-4)
proof (induction m rule: list_nonempty_induct)
  case (single c)
  then show ?case
    using closeAfter_here [OF assms(5), of rest] by simp
next
  case (cons c m)
  let ?v = "m @ b @ ''}}'' @ rest"
  let ?k = "length (takeWhile reSpace ?v)"
  from cons.hyps cons.prems(3) have short: "?k < length m"
    by (intro takeWhile_before_last) simp_all
  have "take 2 (drop j ?v) \<noteq> ''}}''" if "j \<le> ?k" for j
  proof -
    from that short have j: "j < length m" by simp
    then have "drop j ?v = (m ! j) # drop (Suc j) ?v"
      by (simp add: Cons_nth_drop_Suc nth_append)
    moreover from j cons.prems(1) have "m ! j \<noteq> CHR ''}''"
      by (metis list.set_intros(2) nth_mem)
    ultimately show ?thesis by simp
  qed
  then have "closeAfter ?k ?v = None"
    by (rule closeAfter_None)
  moreover from cons have "nameThenClose ?v = Some rest"
    by simp
  ultimately show ?case
    using cons.prems(2) by auto
qed

lemma matchAt_placeholder:
  assumes "list_all reSpace a" and "m \<noteq> []" and "CHR ''}'' \<notin> set m" and "CHR 0x0A \<notin> set m"
    and "\<not> reSpace (hd m)" and "\<not> reSpace (last m)" and "list_all reSpace b"
  shows "matchAt (''{{'' @ a @ m @ b @ ''}}'' @ rest) = Some rest"
proof -
  let ?x = "m @ b @ ''}}'' @ rest"
  from assms(2,5) have "takeWhile reSpace ?x = []"
    by (cases m) simp_all
  with assms(1) have "takeWhile reSpace (a @ ?x) = a"
    by (induction a) simp_all
  moreover have "openAfter (length a) (a @ ?x) = Some rest"
    using nameThenClose_name [OF assms(2,3,4,6,7), of rest]
    by (cases "length a") simp_all
  ultimately show ?thesis
    by (simp add: matchAt_def)
qed

lemma replaceAllFunc_placeholder:
  assumes "matchAt (''{{'' @ p @ rest) = Some rest"
  shows "replaceAllFunc f (''{{'' @ p @ rest) = f (''{{'' @ p) @ replaceAllFunc f rest"
proof -
  have "take (length (''{{'' @ p @ rest) - length rest) (''{{'' @ p @ rest) = ''{{'' @ p"
    by simp
  with assms show ?thesis
    using replaceAllFunc.simps(2) [of f "CHR ''{''" "CHR ''{'' # p @ rest"]
    by simp
qed

text \<open>
  \<^verbatim>\<open>strings.TrimSpace\<close> cuts a prefix and a suffix. A name that it leaves alone neither starts
  nor ends with white space, and the white space of the pattern around it is cut off.
\<close>

lemma trimLeft_suffix: "\<exists>p. s = p @ trimLeft s"
proof (induction s rule: trimLeft.induct)
  case 1
  show ?case by simp
next
  case (2 a)
  show ?case by simp
next
  case (3 a b)
  then show ?case by (auto intro: exI [of _ "[a]"] exI [of _ "[a, b]"])
next
  case (4 a b c s)
  show ?case
  proof (cases "space1 a")
    case True
    with 4 obtain p where "b # c # s = p @ trimLeft (b # c # s)" by blast
    with True have "a # b # c # s = (a # p) @ trimLeft (a # b # c # s)" by simp
    then show ?thesis ..
  next
    case False
    show ?thesis
    proof (cases "space2 a b")
      case True
      with \<open>\<not> space1 a\<close> 4 obtain p where "c # s = p @ trimLeft (c # s)" by blast
      with True \<open>\<not> space1 a\<close> have "a # b # c # s = (a # b # p) @ trimLeft (a # b # c # s)" by simp
      then show ?thesis ..
    next
      case nospace2: False
      show ?thesis
      proof (cases "space3 a b c")
        case True
        with nospace2 \<open>\<not> space1 a\<close> 4 obtain p where "s = p @ trimLeft s" by blast
        with True nospace2 \<open>\<not> space1 a\<close>
        have "a # b # c # s = (a # b # c # p) @ trimLeft (a # b # c # s)" by simp
        then show ?thesis ..
      next
        case False
        with nospace2 \<open>\<not> space1 a\<close> have "a # b # c # s = [] @ trimLeft (a # b # c # s)" by simp
        then show ?thesis ..
      qed
    qed
  qed
qed

lemma trimRightRev_suffix: "\<exists>p. s = p @ trimRightRev s"
proof (induction s rule: trimRightRev.induct)
  case 1
  show ?case by simp
next
  case (2 c)
  show ?case by simp
next
  case (3 c b)
  then show ?case by (auto intro: exI [of _ "[c]"] exI [of _ "[c, b]"])
next
  case (4 c b a s)
  show ?case
  proof (cases "space1 c")
    case True
    with 4 obtain p where "b # a # s = p @ trimRightRev (b # a # s)" by blast
    with True have "c # b # a # s = (c # p) @ trimRightRev (c # b # a # s)" by simp
    then show ?thesis ..
  next
    case False
    show ?thesis
    proof (cases "space2 b c")
      case True
      with \<open>\<not> space1 c\<close> 4 obtain p where "a # s = p @ trimRightRev (a # s)" by blast
      with True \<open>\<not> space1 c\<close> have "c # b # a # s = (c # b # p) @ trimRightRev (c # b # a # s)" by simp
      then show ?thesis ..
    next
      case nospace2: False
      show ?thesis
      proof (cases "space3 a b c")
        case True
        with nospace2 \<open>\<not> space1 c\<close> 4 obtain p where "s = p @ trimRightRev s" by blast
        with True nospace2 \<open>\<not> space1 c\<close>
        have "c # b # a # s = (c # b # a # p) @ trimRightRev (c # b # a # s)" by simp
        then show ?thesis ..
      next
        case False
        with nospace2 \<open>\<not> space1 c\<close> have "c # b # a # s = [] @ trimRightRev (c # b # a # s)" by simp
        then show ?thesis ..
      qed
    qed
  qed
qed

lemma length_trimLeft: "length (trimLeft s) \<le> length s"
  using trimLeft_suffix [of s] by (metis length_append le_add2)

lemma length_trimRightRev: "length (trimRightRev s) \<le> length s"
  using trimRightRev_suffix [of s] by (metis length_append le_add2)

lemma TrimSpace_fixed:
  assumes "TrimSpace n = n"
  shows "trimLeft n = n" and "trimRightRev (rev n) = rev n"
proof -
  obtain p where p: "n = p @ trimLeft n"
    using trimLeft_suffix [of n] ..
  obtain q where q: "rev (trimLeft n) = q @ trimRightRev (rev (trimLeft n))"
    using trimRightRev_suffix [of "rev (trimLeft n)"] ..
  from assms have "trimRightRev (rev (trimLeft n)) = rev n"
    by (metis TrimSpace_def rev_rev_ident)
  with q have "length (trimLeft n) = length q + length n"
    by (metis length_append length_rev)
  moreover from p have "length n = length p + length (trimLeft n)"
    by (metis length_append)
  ultimately have "p = []" by simp
  with p show left: "trimLeft n = n" by simp
  with \<open>trimRightRev (rev (trimLeft n)) = rev n\<close> show "trimRightRev (rev n) = rev n" by simp
qed

lemma trimLeft_space1: "space1 c \<Longrightarrow> trimLeft (c # s) = trimLeft s"
  by (cases "c # s" rule: trimLeft.cases) auto

lemma trimRightRev_space1: "space1 c \<Longrightarrow> trimRightRev (c # s) = trimRightRev s"
  by (cases "c # s" rule: trimRightRev.cases) auto

lemma trimLeft_spaces: "list_all reSpace a \<Longrightarrow> trimLeft (a @ s) = trimLeft s"
  by (induction a) (simp_all add: trimLeft_space1 reSpace_space1)

lemma trimRightRev_spaces: "list_all reSpace a \<Longrightarrow> trimRightRev (a @ s) = trimRightRev s"
  by (induction a) (simp_all add: trimRightRev_space1 reSpace_space1)

lemma trimLeft_first:
  assumes "trimLeft (c # s) = c # s"
  shows "\<not> space1 c"
proof
  assume "space1 c"
  then have "trimLeft (c # s) = trimLeft s" by (rule trimLeft_space1)
  with assms have "length (trimLeft s) = Suc (length s)" by simp
  with length_trimLeft [of s] show False by simp
qed

lemma trimRightRev_first:
  assumes "trimRightRev (c # s) = c # s"
  shows "\<not> space1 c"
proof
  assume "space1 c"
  then have "trimRightRev (c # s) = trimRightRev s" by (rule trimRightRev_space1)
  with assms have "length (trimRightRev s) = Suc (length s)" by simp
  with length_trimRightRev [of s] show False by simp
qed

lemma reSpace_ascii:
  assumes "reSpace z"
  shows "\<not> space2 x z" and "\<not> space3 x z y" and "\<not> space3 x y z"
  using assms by (auto simp: reSpace_def space2_def space3_def)

lemma trimLeft_boundary:
  assumes "trimLeft n = n" and "n \<noteq> []" and "list_all reSpace b"
  shows "trimLeft (n @ b) = n @ b"
proof (cases n rule: trimLeft.cases)
  case 1
  with assms(2) show ?thesis by simp
next
  case (2 x)
  with assms(1) have "\<not> space1 x" by (auto split: if_splits)
  with 2 assms(3) show ?thesis
    by (cases b rule: trimLeft.cases) (auto simp: reSpace_ascii)
next
  case (3 x y)
  with assms(1) have x: "\<not> space1 x" by (intro trimLeft_first [of x "[y]"]) simp
  with 3 assms(1) have "\<not> space2 x y" by (auto split: if_splits)
  with 3 x assms(3) show ?thesis
    by (cases b) (auto simp: reSpace_ascii)
next
  case (4 x y z w)
  with assms(1) have x: "\<not> space1 x" by (intro trimLeft_first [of x "y # z # w"]) simp
  have xy: "\<not> space2 x y"
  proof
    assume "space2 x y"
    with 4 x assms(1) have "trimLeft (z # w) = x # y # z # w" by simp
    with length_trimLeft [of "z # w"] show False by simp
  qed
  have xyz: "\<not> space3 x y z"
  proof
    assume "space3 x y z"
    with 4 x xy assms(1) have "trimLeft w = x # y # z # w" by simp
    with length_trimLeft [of w] show False by simp
  qed
  from 4 x xy xyz show ?thesis by simp
qed

lemma TrimSpace_placeholder:
  assumes "list_all reSpace a" and "n \<noteq> []" and "TrimSpace n = n" and "list_all reSpace b"
  shows "TrimSpace (a @ n @ b) = n"
proof -
  from assms(3) have left: "trimLeft n = n" and right: "trimRightRev (rev n) = rev n"
    by (rule TrimSpace_fixed)+
  have "trimLeft (a @ n @ b) = trimLeft (n @ b)"
    using assms(1) by (rule trimLeft_spaces)
  also have "\<dots> = n @ b"
    using left assms(2,4) by (rule trimLeft_boundary)
  finally have "TrimSpace (a @ n @ b) = rev (trimRightRev (rev b @ rev n))"
    by (simp add: TrimSpace_def)
  also have "trimRightRev (rev b @ rev n) = trimRightRev (rev n)"
    using assms(4) by (intro trimRightRev_spaces) simp
  finally show ?thesis
    using right by simp
qed

text \<open>The function applied to a matched placeholder looks up the name.\<close>

lemma removeFirst_close:
  "CHR ''}'' \<notin> set xs \<Longrightarrow> removeFirst ''}}'' (xs @ ''}}'' @ rest) = xs @ rest"
  by (induction xs) auto

lemma reSpace_no_brace: "list_all reSpace a \<Longrightarrow> CHR ''}'' \<notin> set a"
  by (induction a) (auto simp: reSpace_def)

lemma legendReplace_placeholder:
  assumes "list_all reSpace a" and "fieldName n" and "list_all reSpace b"
  shows "legendReplace kv (''{{'' @ a @ n @ b @ ''}}'') =
    (case map_of kv n of Some v \<Rightarrow> v | None \<Rightarrow> ''{{'' @ a @ n @ b @ ''}}'')"
proof -
  from assms have "CHR ''}'' \<notin> set (a @ n @ b)"
    by (simp add: fieldName_def reSpace_no_brace)
  then have "removeFirst ''}}'' ((a @ n @ b) @ ''}}'' @ []) = (a @ n @ b) @ []"
    by (rule removeFirst_close)
  then have "removeFirst ''}}'' (removeFirst ''{{'' (''{{'' @ a @ n @ b @ ''}}'')) = a @ n @ b"
    by simp
  moreover from assms have "TrimSpace (a @ n @ b) = n"
    by (intro TrimSpace_placeholder) (simp_all add: fieldName_def)
  ultimately show ?thesis
    by (simp add: legendReplace_def split: option.splits)
qed

lemma fieldName_ends:
  assumes "fieldName n"
  shows "\<not> reSpace (hd n)" and "\<not> reSpace (last n)"
proof -
  from assms have n: "n \<noteq> []" and "TrimSpace n = n" by (simp_all add: fieldName_def)
  then have left: "trimLeft n = n" and right: "trimRightRev (rev n) = rev n"
    by (simp_all add: TrimSpace_fixed)
  from n left have "\<not> space1 (hd n)"
    by (cases n) (auto dest: trimLeft_first)
  then show "\<not> reSpace (hd n)"
    using reSpace_space1 by blast
  from n right have "\<not> space1 (hd (rev n))"
    by (cases "rev n") (auto dest: trimRightRev_first)
  with n have "\<not> space1 (last n)"
    by (simp add: hd_rev)
  then show "\<not> reSpace (last n)"
    using reSpace_space1 by blast
qed

lemma replaceAllFunc_template:
  "list_all wellFormed segs \<Longrightarrow> replaceAllFunc (legendReplace kv) (template segs) = filled kv segs"
proof (induction segs)
  case Nil
  show ?case by simp
next
  case (Cons seg segs)
  then have rest: "replaceAllFunc (legendReplace kv) (template segs) = filled kv segs"
    by simp
  show ?case
  proof (cases seg)
    case (Text t)
    with Cons.prems rest show ?thesis
      by (simp add: replaceAllFunc_plainText)
  next
    case (Placeholder a n b)
    with Cons.prems have wf: "list_all reSpace a" "fieldName n" "list_all reSpace b"
      by simp_all
    from wf(2) have n: "n \<noteq> []" "CHR ''}'' \<notin> set n" "CHR 0x0A \<notin> set n"
      by (simp_all add: fieldName_def)
    have "matchAt (''{{'' @ a @ n @ b @ ''}}'' @ template segs) = Some (template segs)"
      using wf(1) n fieldName_ends [OF wf(2)] wf(3) by (rule matchAt_placeholder)
    then have "matchAt (''{{'' @ (a @ n @ b @ ''}}'') @ template segs) = Some (template segs)"
      by simp
    then have "replaceAllFunc (legendReplace kv) (''{{'' @ (a @ n @ b @ ''}}'') @ template segs)
        = legendReplace kv (''{{'' @ (a @ n @ b @ ''}}'')) @ replaceAllFunc (legendReplace kv) (template segs)"
      by (rule replaceAllFunc_placeholder)
    with Placeholder rest legendReplace_placeholder [OF wf, of kv] show ?thesis
      by simp
  qed
qed

text \<open>
  C6. For a template that is not empty and is made of plain texts and placeholders
  \<^verbatim>\<open>{{ fieldName }}\<close>, the legend formatter replaces every placeholder by the tag value for its
  field name, the white space around the name trimmed away, when the tags have that name, and
  leaves the placeholder as it is written when they do not; the plain texts are kept. In
  particular the tags \<^verbatim>\<open>{host: "a"}\<close> with the template \<^verbatim>\<open>{{ host }}\<close> give \<^verbatim>\<open>a\<close>, and the tags
  \<^verbatim>\<open>{a: "1"}\<close> with the empty template give \<^verbatim>\<open>{a="1"}\<close>, whatever the order in which the map
  with its one key is visited.
\<close>

theorem formatLegend_template:
  assumes "list_all wellFormed segs" and "template segs \<noteq> ''''"
  shows "formatLegend visit kv (template segs) = filled kv segs
    \<and> formatLegend visit [(''host'', ''a'')] ''{{ host }}'' = ''a''
    \<and> (visit [''a''] = [''a''] \<longrightarrow>
         formatLegend visit [(''a'', ''1'')] ''''
           = [CHR ''{'', CHR ''a'', CHR ''='', CHR 0x22, CHR ''1'', CHR 0x22, CHR ''}''])"
proof (intro conjI impI)
  show "formatLegend visit kv (template segs) = filled kv segs"
    using assms by (simp add: formatLegend_def replaceAllFunc_template)
  show "formatLegend visit [(''host'', ''a'')] ''{{ host }}'' = ''a''"
    by (simp add: formatLegend_def legendReplace_def matchAt_def TrimSpace_def reSpace_def space1_def
        space2_def space3_def)
  assume "visit [''a''] = [''a'']"
  then show "formatLegend visit [(''a'', ''1'')] ''''
      = [CHR ''{'', CHR ''a'', CHR ''='', CHR 0x22, CHR ''1'', CHR 0x22, CHR ''}'']"
    by (simp add: formatLegend_def rangeMap_def List.map_filter_def)
qed

text \<open>An instance: a template with a placeholder for a tag and one for a field that is no tag.\<close>

theorem formatLegend_template_witness:
  "formatLegend (\<lambda>keys. keys) [(''host'', ''a'')] ''x {{ host }} {{pod}}!'' = ''x a {{pod}}!''
 \<and> formatLegend (\<lambda>keys. keys) [(''host'', ''a'')] ''{{ host }}'' = ''a''
 \<and> formatLegend (\<lambda>keys. keys) [(''a'', ''1'')] ''''
     = [CHR ''{'', CHR ''a'', CHR ''='', CHR 0x22, CHR ''1'', CHR 0x22, CHR ''}'']"
  using formatLegend_template [where visit = "\<lambda>keys. keys" and kv = "[(''host'', ''a'')]"
      and segs = "[Text ''x '', Placeholder '' '' ''host'' '' '', Text '' '', Placeholder '''' ''pod'' '''', Text ''!'']"]
  by (simp add: fieldName_def TrimSpace_def reSpace_def space1_def space2_def space3_def)

end
